theory Spec2Isabelle
  imports Complex_Main "HOL-Library.Word"
begin

section \<open>Values, exceptions and the outside world\<close>

text \<open>
  A byte string is a list of HOL characters, one character per byte. A Python \<open>str\<close> is
  represented by its UTF-8 encoding, so \<open>bytes.decode()\<close> is the identity on well-formed
  input and \<open>str.encode()\<close> is the identity.
\<close>

type_synonym bytes = string
type_synonym double = "64 word"

datatype exn =
    NameError | TypeError | ValueError | KeyError | RuntimeError
  | ZeroDivisionError | OverflowError | UnicodeDecodeError | StructError
  | OSError | SerialException

text \<open>
  A call returns a value, raises an exception, or never returns (\<open>Hang\<close>: a read on a
  serial port without timeout that waits for bytes the device never sends).
\<close>

datatype 'a outcome = Return 'a | Raise exn | Hang

datatype dev = Vna | Mot

datatype 'f event =
    Tx dev bytes
  | Sleep 'f
  | Print string
  | FileOpen string
  | FileWrite string string
  | FileFlush string

text \<open>
  The Python runtime, as far as the program uses it and this development does not define
  it: floating-point numbers are an abstract type \<open>'f\<close> with the operations the
  program applies to them (\<open>fl_const\<close> gives the value of a literal of the source text,
  \<open>fl_of_bits\<close> the number a binary64 bit pattern encodes, \<open>fl_str\<close> and \<open>fl_fmt3\<close> the
  formats \<open>{}\<close> and \<open>{:.3f}\<close>, \<open>fl_sleep\<close> the exception \<open>sleep\<close> raises for a duration
  it refuses); \<open>int\<close> and \<open>rstrip\<close> on a string with non-ASCII characters and
  \<open>os.path.splitext\<close> are parameters as well, and so is the bound on the number of
  digits that \<open>int\<close> converts (\<open>sys.get_int_max_str_digits()\<close>, where 0 means that there
  is none, as in the versions of Python that do not have the bound).
  \<open>None\<close> results stand for the exception the operation raises (\<open>ValueError\<close> for the
  parsers, \<open>OverflowError\<close> for \<open>fl_of_int\<close>, \<open>ZeroDivisionError\<close> for \<open>fl_div\<close>).
\<close>

record 'f runtime =
  int_max_str_digits :: nat
  int_unicode :: "string \<Rightarrow> int option"
  fl_parse :: "string \<Rightarrow> 'f option"
  fl_const :: "string \<Rightarrow> 'f"
  fl_of_int :: "int \<Rightarrow> 'f option"
  fl_of_bits :: "double \<Rightarrow> 'f"
  fl_add :: "'f \<Rightarrow> 'f \<Rightarrow> 'f"
  fl_sub :: "'f \<Rightarrow> 'f \<Rightarrow> 'f"
  fl_mul :: "'f \<Rightarrow> 'f \<Rightarrow> 'f"
  fl_div :: "'f \<Rightarrow> 'f \<Rightarrow> 'f option"
  fl_neg :: "'f \<Rightarrow> 'f"
  fl_less :: "'f \<Rightarrow> 'f \<Rightarrow> bool"
  fl_trunc :: "'f \<Rightarrow> exn + int"
  fl_str :: "'f \<Rightarrow> string"
  fl_fmt3 :: "'f \<Rightarrow> string"
  fl_sleep :: "'f \<Rightarrow> exn option"
  str_rstrip :: "string \<Rightarrow> string"
  splitext :: "string \<Rightarrow> string \<times> string"

text \<open>
  The world outside the program. \<open>vna_rx\<close> and \<open>mot_rx\<close> hold the bytes the analyser and
  the motor controller send from now on; a byte is available as soon as it is asked for,
  so a read with a timeout comes back short only when the stream is exhausted.
  \<open>vna_timeout\<close> and \<open>mot_timeout\<close> say whether the port was opened with a read timeout.
  \<open>serial_open\<close> and \<open>file_open\<close> give the exception that opening a port or a file
  raises, if any. \<open>trace\<close> records, in order, what the program did to the world: the
  bytes written to a port (a write never fails), the waits, the lines printed and what was
  done to the files.
\<close>

record 'f world =
  vna_rx :: bytes
  vna_timeout :: bool
  mot_rx :: bytes
  mot_timeout :: bool
  serial_open :: "string \<Rightarrow> int \<Rightarrow> 'f option \<Rightarrow> exn option"
  file_open :: "string \<Rightarrow> exn option"
  conf_lines :: "string \<Rightarrow> string list"
  clock :: string
  trace :: "'f event list"

type_synonym ('a, 'f) prog = "'f world \<Rightarrow> 'a outcome \<times> 'f world"

definition ret :: "'a \<Rightarrow> ('a, 'f) prog" where
  "ret x w = (Return x, w)"

definition raise :: "exn \<Rightarrow> ('a, 'f) prog" where
  "raise e w = (Raise e, w)"

definition bind :: "('a, 'f) prog \<Rightarrow> ('a \<Rightarrow> ('b, 'f) prog) \<Rightarrow> ('b, 'f) prog" where
  "bind m f w =
     (case m w of
        (Return x, w') \<Rightarrow> f x w'
      | (Raise e, w') \<Rightarrow> (Raise e, w')
      | (Hang, w') \<Rightarrow> (Hang, w'))"

definition emit :: "'f event \<Rightarrow> (unit, 'f) prog" where
  "emit e w = (Return (), w\<lparr>trace := trace w @ [e]\<rparr>)"

definition orraise :: "exn \<Rightarrow> 'a option \<Rightarrow> ('a, 'f) prog" where
  "orraise e x = (case x of None \<Rightarrow> raise e | Some v \<Rightarrow> ret v)"

section \<open>Python strings and integers\<close>

definition LF :: char where
  "LF = CHR 0x0A"

definition cont_byte :: "nat \<Rightarrow> bool" where
  "cont_byte b \<longleftrightarrow> 0x80 \<le> b \<and> b \<le> 0xBF"

text \<open>Well-formed UTF-8, which is what the strict decoder of \<open>bytes.decode()\<close> accepts.\<close>

fun utf8_valid :: "nat list \<Rightarrow> bool" where
  "utf8_valid [] = True"
| "utf8_valid (a # bs) =
     (if a < 0x80 then utf8_valid bs
      else if 0xC2 \<le> a \<and> a \<le> 0xDF then
        (case bs of b # r \<Rightarrow> cont_byte b \<and> utf8_valid r | _ \<Rightarrow> False)
      else if 0xE0 \<le> a \<and> a \<le> 0xEF then
        (case bs of b # c # r \<Rightarrow>
           (if a = 0xE0 then 0xA0 \<le> b \<and> b \<le> 0xBF
            else if a = 0xED then 0x80 \<le> b \<and> b \<le> 0x9F
            else cont_byte b) \<and> cont_byte c \<and> utf8_valid r
         | _ \<Rightarrow> False)
      else if 0xF0 \<le> a \<and> a \<le> 0xF4 then
        (case bs of b # c # d # r \<Rightarrow>
           (if a = 0xF0 then 0x90 \<le> b \<and> b \<le> 0xBF
            else if a = 0xF4 then 0x80 \<le> b \<and> b \<le> 0x8F
            else cont_byte b) \<and> cont_byte c \<and> cont_byte d \<and> utf8_valid r
         | _ \<Rightarrow> False)
      else False)"

definition decode :: "bytes \<Rightarrow> (string, 'f) prog" where
  "decode bs = (if utf8_valid (map of_char bs) then ret bs else raise UnicodeDecodeError)"

definition is_ascii :: "char \<Rightarrow> bool" where
  "is_ascii c \<longleftrightarrow> (of_char c :: nat) < 0x80"

definition is_digit :: "char \<Rightarrow> bool" where
  "is_digit c \<longleftrightarrow> 48 \<le> (of_char c :: nat) \<and> (of_char c :: nat) \<le> 57"

definition digit_val :: "char \<Rightarrow> nat" where
  "digit_val c = of_char c - 48"

text \<open>
  The ASCII characters that \<open>str.isspace\<close> accepts, which \<open>str.rstrip()\<close> removes from
  the end of a string.
\<close>

definition is_space :: "char \<Rightarrow> bool" where
  "is_space c \<longleftrightarrow> (of_char c :: nat) \<in> {9, 10, 11, 12, 13, 28, 29, 30, 31, 32}"

definition rstrip :: "string \<Rightarrow> string" where
  "rstrip s = rev (dropWhile is_space (rev s))"

text \<open>
  The white space that \<open>int\<close> and \<open>float\<close> skip on both sides of the number in an ASCII
  string: tab, line feed, vertical tab, form feed, carriage return and space. The
  separators \<open>0x1C\<close> to \<open>0x1F\<close> are not among them.
\<close>

definition is_cspace :: "char \<Rightarrow> bool" where
  "is_cspace c \<longleftrightarrow> (of_char c :: nat) \<in> {9, 10, 11, 12, 13, 32}"

definition strip :: "string \<Rightarrow> string" where
  "strip s = dropWhile is_cspace (rev (dropWhile is_cspace (rev s)))"

text \<open>
  Decimal digits with single underscores between them, the body of an integer literal
  accepted by \<open>int(str)\<close>; \<open>acc\<close> is the value of the digits read so far.
\<close>

fun dec_body :: "nat \<Rightarrow> string \<Rightarrow> nat option" where
  "dec_body acc [] = Some acc"
| "dec_body acc [c] = (if is_digit c then Some (10 * acc + digit_val c) else None)"
| "dec_body acc (c # d # cs) =
     (if is_digit c then dec_body (10 * acc + digit_val c) (d # cs)
      else if c = CHR ''_'' \<and> is_digit d then dec_body acc (d # cs)
      else None)"

definition dec_lit :: "string \<Rightarrow> nat option" where
  "dec_lit s = (case s of [] \<Rightarrow> None | c # cs \<Rightarrow> if is_digit c then dec_body 0 s else None)"

definition int_ascii :: "string \<Rightarrow> int option" where
  "int_ascii s =
     (case strip s of
        [] \<Rightarrow> None
      | c # cs \<Rightarrow>
          if c = CHR ''-'' then map_option (\<lambda>n. - int n) (dec_lit cs)
          else if c = CHR ''+'' then map_option int (dec_lit cs)
          else map_option int (dec_lit (c # cs)))"

text \<open>
  \<open>int(s)\<close> for a string \<open>s\<close>: white space around an optional sign and a decimal literal;
  \<open>None\<close> stands for \<open>ValueError\<close>. A literal of more than 640 digits is refused when it
  has more digits than the bound of the runtime and that bound is not 0.
\<close>

definition int_str :: "'f runtime \<Rightarrow> string \<Rightarrow> int option" where
  "int_str py s =
     (if list_all is_ascii s then
        (let n = length (filter is_digit s) in
         if 640 < n \<and> 0 < int_max_str_digits py \<and> int_max_str_digits py < n then None
         else int_ascii s)
      else int_unicode py s)"

definition py_int :: "'f runtime \<Rightarrow> string \<Rightarrow> (int, 'f) prog" where
  "py_int py s = orraise ValueError (int_str py s)"

text \<open>\<open>float(s)\<close> for a string \<open>s\<close>.\<close>

definition py_float :: "'f runtime \<Rightarrow> string \<Rightarrow> ('f, 'f) prog" where
  "py_float py s = orraise ValueError (fl_parse py s)"

section \<open>The serial port (pyserial)\<close>

definition rx_of :: "dev \<Rightarrow> 'f world \<Rightarrow> bytes" where
  "rx_of d w = (case d of Vna \<Rightarrow> vna_rx w | Mot \<Rightarrow> mot_rx w)"

definition set_rx :: "dev \<Rightarrow> bytes \<Rightarrow> 'f world \<Rightarrow> 'f world" where
  "set_rx d bs w = (case d of Vna \<Rightarrow> w\<lparr>vna_rx := bs\<rparr> | Mot \<Rightarrow> w\<lparr>mot_rx := bs\<rparr>)"

definition has_timeout :: "dev \<Rightarrow> 'f world \<Rightarrow> bool" where
  "has_timeout d w = (case d of Vna \<Rightarrow> vna_timeout w | Mot \<Rightarrow> mot_timeout w)"

text \<open>
  \<open>Serial.read(n)\<close>: \<open>n\<close> bytes; with a timeout whatever is left when fewer arrive; without
  a timeout the call waits for the missing bytes.
\<close>

definition ser_read :: "dev \<Rightarrow> nat \<Rightarrow> (bytes, 'f) prog" where
  "ser_read d n w =
     (let rx = rx_of d w in
      if n \<le> length rx then (Return (take n rx), set_rx d (drop n rx) w)
      else if has_timeout d w then (Return rx, set_rx d [] w)
      else (Hang, set_rx d [] w))"

text \<open>\<open>Serial.readline()\<close>: up to and including the next line feed.\<close>

definition ser_readline :: "dev \<Rightarrow> (bytes, 'f) prog" where
  "ser_readline d w =
     (let rx = rx_of d w in
      if LF \<in> set rx then
        (Return (takeWhile (\<lambda>c. c \<noteq> LF) rx @ [LF]),
         set_rx d (tl (dropWhile (\<lambda>c. c \<noteq> LF) rx)) w)
      else if has_timeout d w then (Return rx, set_rx d [] w)
      else (Hang, set_rx d [] w))"

definition ser_write :: "dev \<Rightarrow> bytes \<Rightarrow> (unit, 'f) prog" where
  "ser_write d bs = emit (Tx d bs)"

section \<open>vna.py\<close>

definition vna_cmd :: "string \<Rightarrow> (unit, 'f) prog" where
  "vna_cmd command = ser_write Vna (command @ [LF])"

text \<open>\<open>struct.unpack('<d', bs)\<close>: the buffer must hold exactly 8 bytes.\<close>

definition le_word :: "bytes \<Rightarrow> double" where
  "le_word bs = foldr (\<lambda>c acc. of_char c + 256 * acc) bs 0"

definition unpack_d :: "'f runtime \<Rightarrow> bytes \<Rightarrow> ('f, 'f) prog" where
  "unpack_d py bs =
     (if length bs = 8 then ret (fl_of_bits py (le_word bs)) else raise StructError)"

text \<open>The loop \<open>for i in range(data_pts)\<close> of \<open>read_raw\<close>, with the list \<open>ret\<close> built so far.\<close>

fun read_pts :: "'f runtime \<Rightarrow> nat \<Rightarrow> ('f \<times> 'f) list \<Rightarrow> (('f \<times> 'f) list, 'f) prog" where
  "read_pts py 0 acc = ret acc"
| "read_pts py (Suc n) acc =
     bind (ser_read Vna 8) (\<lambda>b1.
     bind (unpack_d py b1) (\<lambda>re.
     bind (ser_read Vna 8) (\<lambda>b2.
     bind (unpack_d py b2) (\<lambda>im.
     read_pts py n (acc @ [(re, im)])))))"

definition read_raw :: "'f runtime \<Rightarrow> (('f \<times> 'f) list option, 'f) prog" where
  "read_raw py =
     bind (vna_cmd ''FORMAT:DATA REAL,64'') (\<lambda>_.
     bind (vna_cmd ''TRAC? CH1DATA'') (\<lambda>_.
     bind (ser_read Vna 1) (\<lambda>byte.
     bind (decode byte) (\<lambda>marker.
     if marker = ''#'' then
       bind (ser_read Vna 1) (\<lambda>b.
       bind (decode b) (\<lambda>s.
       bind (py_int py s) (\<lambda>length.
       bind (ser_read Vna (nat length)) (\<lambda>b'.
       bind (decode b') (\<lambda>s'.
       bind (py_int py s') (\<lambda>data_length.
       bind (read_pts py (nat (data_length div 16)) []) (\<lambda>pts.
       bind (ser_readline Vna) (\<lambda>_.
       ret (Some pts)))))))))
     else ret None))))"


text \<open>\<open>time.sleep(x)\<close>.\<close>

definition sleep :: "'f runtime \<Rightarrow> 'f \<Rightarrow> (unit, 'f) prog" where
  "sleep py x = (case fl_sleep py x of Some e \<Rightarrow> raise e | None \<Rightarrow> emit (Sleep x))"

text \<open>\<open>str(n)\<close> for an integer \<open>n\<close>.\<close>

definition digit_char :: "nat \<Rightarrow> char" where
  "digit_char n = char_of (48 + n)"

fun show_nat :: "nat \<Rightarrow> string" where
  "show_nat n = (if n < 10 then [digit_char n] else show_nat (n div 10) @ [digit_char (n mod 10)])"

definition show_int :: "int \<Rightarrow> string" where
  "show_int i = (if i < 0 then CHR ''-'' # show_nat (nat (- i)) else show_nat (nat i))"

text \<open>
  \<open>Serial(port, baudrate, timeout=t)\<close>: whether the port opens is up to the world. The
  bytes flushed by \<open>flushInput\<close> arrived before the port was opened and are not part of
  \<open>vna_rx\<close>.
\<close>

definition open_serial :: "dev \<Rightarrow> string \<Rightarrow> int \<Rightarrow> 'f option \<Rightarrow> (unit, 'f) prog" where
  "open_serial d port baudrate t w =
     (case serial_open w port baudrate t of
        Some e \<Rightarrow> (Raise e, w)
      | None \<Rightarrow>
          (Return (),
           case d of Vna \<Rightarrow> w\<lparr>vna_timeout := (t \<noteq> None)\<rparr>
                   | Mot \<Rightarrow> w\<lparr>mot_timeout := (t \<noteq> None)\<rparr>))"

definition VNA_init :: "string \<Rightarrow> int \<Rightarrow> (unit, 'f) prog" where
  "VNA_init port baudrate =
     bind (open_serial Vna port baudrate None) (\<lambda>_. vna_cmd ''@REM'')"

definition vna_query :: "string \<Rightarrow> (string, 'f) prog" where
  "vna_query command =
     bind (vna_cmd command) (\<lambda>_.
     bind (ser_readline Vna) (\<lambda>line. decode line))"

definition get_center :: "'f runtime \<Rightarrow> ('f, 'f) prog" where
  "get_center py = bind (vna_query ''SENSE:FREQ:CENTER?'') (py_float py)"

definition get_span :: "'f runtime \<Rightarrow> ('f, 'f) prog" where
  "get_span py = bind (vna_query ''SENSE:FREQ:SPAN?'') (py_float py)"

definition set_avg :: "int \<Rightarrow> (unit, 'f) prog" where
  "set_avg avg =
     (if avg > 1 then
        bind (vna_cmd (''SENSE:AVERAGE:COUNT '' @ show_int avg)) (\<lambda>_.
        bind (vna_cmd ''SENSE:AVERAGE:STATE ON'') (\<lambda>_.
        vna_cmd ''SENSE:AVERAGE:CLEAR''))
      else
        bind (vna_cmd ''SENSE:AVERAGE:COUNT 1'') (\<lambda>_.
        bind (vna_cmd ''SENSE:AVERAGE:STATE OFF'') (\<lambda>_.
        vna_cmd ''SENSE:AVERAGE:CLEAR'')))"

definition get_avg :: "'f runtime \<Rightarrow> (int, 'f) prog" where
  "get_avg py = bind (vna_query ''SENSE:AVERAGE:COUNT?'') (py_int py)"

definition reset_avg :: "(unit, 'f) prog" where
  "reset_avg = vna_cmd ''SENSE:AVERAGE:CLEAR''"

definition set_points :: "int \<Rightarrow> (unit, 'f) prog" where
  "set_points pts =
     vna_cmd (''SENSE:SWEEP:POINTS '' @
       show_int (if pts > 2001 then 2001 else if pts < 3 then 3 else pts))"

definition get_points :: "'f runtime \<Rightarrow> (int, 'f) prog" where
  "get_points py = bind (vna_query ''SENSE:SWEEP:POINTS?'') (py_int py)"

definition set_power :: "int \<Rightarrow> (unit, 'f) prog" where
  "set_power P =
     vna_cmd (''SOURCE:POWER '' @
       show_int (if P > 6 then 6 else if P < - 17 then - 17 else P) @ ''dBm'')"

definition get_sweeptime :: "'f runtime \<Rightarrow> ('f, 'f) prog" where
  "get_sweeptime py = bind (vna_query ''SENS:SWEEP:TIME?'') (py_float py)"

definition measurecycles :: "'f runtime \<Rightarrow> (unit, 'f) prog" where
  "measurecycles py =
     bind reset_avg (\<lambda>_.
     bind (get_avg py) (\<lambda>avg.
     bind (get_sweeptime py) (\<lambda>t.
     bind (orraise OverflowError (fl_of_int py (avg + 1))) (\<lambda>k.
     sleep py (fl_mul py t k)))))"

text \<open>
  \<open>read_amp_phase\<close>: \<open>polar (re, im)\<close> stands for \<open>(sqrt(re*re + im*im), atan2(im, re))\<close>,
  which raises nothing. Iterating over \<open>None\<close> is a \<open>TypeError\<close>.
\<close>

definition read_amp_phase :: "'f runtime \<Rightarrow> ('f \<times> 'f \<Rightarrow> 'p) \<Rightarrow> ('p list, 'f) prog" where
  "read_amp_phase py polar =
     bind (read_raw py) (\<lambda>raw.
     case raw of None \<Rightarrow> raise TypeError | Some pts \<Rightarrow> ret (map polar pts))"

text \<open>
  The names bound in the module \<open>vna\<close> by its imports and class statements. A name
  that is neither among them nor a builtin raises \<open>NameError\<close> when it is evaluated.
\<close>

definition vna_names :: "string list" where
  "vna_names =
     [''Serial'', ''sleep'', ''asctime'', ''sqrt'', ''atan2'', ''unpack'', ''VNA'', ''Marker'']"

definition global_name :: "string \<Rightarrow> (unit, 'f) prog" where
  "global_name n = (if n \<in> set vna_names then ret () else raise NameError)"

definition open_file :: "string \<Rightarrow> (unit, 'f) prog" where
  "open_file file w =
     (case file_open w file of
        Some e \<Rightarrow> (Raise e, w)
      | None \<Rightarrow> (Return (), w\<lparr>trace := trace w @ [FileOpen file]\<rparr>))"

definition now :: "(string, 'f) prog" where
  "now w = (Return (clock w), w)"

text \<open>The loop \<open>for line in raw\<close> of \<open>write_raw\<close>.\<close>

fun write_rows :: "'f runtime \<Rightarrow> string \<Rightarrow> ('f \<times> 'f) list \<Rightarrow> (unit, 'f) prog" where
  "write_rows py file [] = ret ()"
| "write_rows py file ((re, im) # rows) =
     bind (emit (FileWrite file (fl_str py re @ [CHR 0x09] @ fl_str py im @ [LF]))) (\<lambda>_.
     write_rows py file rows)"

text \<open>
  \<open>write_raw\<close>. The first statement of the \<open>with\<close> block evaluates the name \<open>strftime\<close>
  before anything is written; \<open>now\<close> stands for the date the call would give.
\<close>

definition write_raw :: "'f runtime \<Rightarrow> string \<Rightarrow> (unit, 'f) prog" where
  "write_raw py file =
     bind (read_raw py) (\<lambda>raw.
     bind (open_file file) (\<lambda>_.
     bind (global_name ''strftime'') (\<lambda>_.
     bind now (\<lambda>date.
     bind (emit (FileWrite file (''# Date: '' @ date @ [LF]))) (\<lambda>_.
     bind (get_center py) (\<lambda>center.
     bind (emit (FileWrite file (''# Center: '' @ fl_str py center @ [LF]))) (\<lambda>_.
     bind (get_span py) (\<lambda>span.
     bind (emit (FileWrite file (''# Span: '' @ fl_str py span @ [LF]))) (\<lambda>_.
     bind (get_points py) (\<lambda>points.
     bind (emit (FileWrite file (''# Points: '' @ show_int points @ [LF]))) (\<lambda>_.
     bind (emit (FileWrite file (''# Real:'' @ [CHR 0x09] @ ''Imag:'' @ [LF]))) (\<lambda>_.
     case raw of None \<Rightarrow> raise TypeError | Some rows \<Rightarrow> write_rows py file rows))))))))))))"

text \<open>The class \<open>Marker\<close>; \<open>num\<close> is the marker's number.\<close>

definition marker_cmd :: "int \<Rightarrow> string \<Rightarrow> (unit, 'f) prog" where
  "marker_cmd num command =
     ser_write Vna (''CALC:MARK'' @ show_int num @ '':'' @ command @ [LF])"

definition get_pos :: "'f runtime \<Rightarrow> int \<Rightarrow> ('f \<times> 'f, 'f) prog" where
  "get_pos py num =
     bind (marker_cmd num ''X?'') (\<lambda>_.
     bind (ser_readline Vna) (\<lambda>lx.
     bind (decode lx) (\<lambda>x.
     bind (marker_cmd num ''Y?'') (\<lambda>_.
     bind (ser_readline Vna) (\<lambda>ly.
     bind (decode ly) (\<lambda>y.
     bind (py_float py x) (\<lambda>fx.
     bind (py_float py y) (\<lambda>fy.
     ret (fx, fy)))))))))"

definition search_min :: "'f runtime \<Rightarrow> int \<Rightarrow> ('f \<times> 'f, 'f) prog" where
  "search_min py num =
     bind (marker_cmd num ''MIN'') (\<lambda>_.
     bind (marker_cmd num ''SEARCH'') (\<lambda>_.
     get_pos py num))"


section \<open>motor.py\<close>

record 'f motor =
  motor_name :: string
  motor_scaling :: 'f

definition py_rstrip :: "'f runtime \<Rightarrow> string \<Rightarrow> string" where
  "py_rstrip py s = (if list_all is_ascii s then rstrip s else str_rstrip py s)"

definition trunc :: "'f runtime \<Rightarrow> 'f \<Rightarrow> (int, 'f) prog" where
  "trunc py x = (case fl_trunc py x of Inl e \<Rightarrow> raise e | Inr n \<Rightarrow> ret n)"

text \<open>
  \<open>open(file)\<close> for reading: \<open>conf_lines w file\<close> are the lines of the file without
  their trailing white space, the list \<open>conf\<close> of \<open>load_motor_config\<close>.
\<close>

definition read_conf :: "string \<Rightarrow> (string list, 'f) prog" where
  "read_conf file w =
     (case file_open w file of
        Some e \<Rightarrow> (Raise e, w)
      | None \<Rightarrow> (Return (conf_lines w file), w))"

fun send_settings :: "string \<Rightarrow> string list \<Rightarrow> (unit, 'f) prog" where
  "send_settings name [] = ret ()"
| "send_settings name (setting # conf) =
     bind (ser_write Mot (name @ setting @ [LF])) (\<lambda>_.
     bind (ser_readline Mot) (\<lambda>_.
     send_settings name conf))"

definition load_motor_config :: "string \<Rightarrow> string \<Rightarrow> (unit, 'f) prog" where
  "load_motor_config name file = bind (read_conf file) (send_settings name)"

definition motor_get :: "'f runtime \<Rightarrow> 'f motor \<Rightarrow> string \<Rightarrow> (string, 'f) prog" where
  "motor_get py m var =
     bind (ser_write Mot (motor_name m @ ''PR '' @ var @ [LF])) (\<lambda>_.
     bind (ser_readline Mot) (\<lambda>_.
     bind (ser_readline Mot) (\<lambda>line.
     bind (decode line) (\<lambda>response.
     ret (py_rstrip py response)))))"

definition move_to :: "'f runtime \<Rightarrow> 'f motor \<Rightarrow> 'f \<Rightarrow> (unit, 'f) prog" where
  "move_to py m pos =
     bind (orraise ZeroDivisionError
             (fl_div py (fl_mul py (fl_const py ''1.0'') pos) (motor_scaling m))) (\<lambda>q.
     bind (trunc py q) (\<lambda>P.
     bind (ser_write Mot (motor_name m @ ''MA '' @ show_int P @ [LF])) (\<lambda>_.
     bind (ser_readline Mot) (\<lambda>_.
     ret ()))))"

definition is_moving :: "'f runtime \<Rightarrow> 'f motor \<Rightarrow> (bool, 'f) prog" where
  "is_moving py m =
     bind (motor_get py m ''MV'') (\<lambda>r.
     bind (py_int py r) (\<lambda>MV.
     ret (MV \<noteq> 0)))"

section \<open>stoerkoerpermessung.py\<close>

text \<open>
  The configuration as \<open>ConfigParser\<close> presents it: \<open>cfg s\<close> is the section \<open>s\<close>
  (\<open>None\<close> when the file has none), and for a section \<open>settings\<close>, \<open>settings k\<close> is the
  value \<open>settings[k]\<close> (\<open>None\<close> when \<open>k in settings\<close> is false).
\<close>

type_synonym options = "string \<Rightarrow> string option"
type_synonym config = "string \<Rightarrow> options option"

record 'f app =
  config :: config
  config_filename :: string
  out_filename :: string
  motor :: "'f motor"

definition get_section :: "config \<Rightarrow> string \<Rightarrow> (options, 'f) prog" where
  "get_section cfg s = orraise KeyError (cfg s)"

definition item :: "options \<Rightarrow> string \<Rightarrow> (string, 'f) prog" where
  "item settings k = orraise KeyError (settings k)"

definition lower :: "char \<Rightarrow> char" where
  "lower c =
     (let n = (of_char c :: nat) in if 65 \<le> n \<and> n \<le> 90 then char_of (n + 32) else c)"

text \<open>\<open>settings.getboolean(k)\<close>: \<open>None\<close> when the option is missing.\<close>

definition getboolean :: "options \<Rightarrow> string \<Rightarrow> (bool option, 'f) prog" where
  "getboolean settings k =
     (case settings k of
        None \<Rightarrow> ret None
      | Some v \<Rightarrow>
          if map lower v \<in> set [''1'', ''yes'', ''true'', ''on''] then ret (Some True)
          else if map lower v \<in> set [''0'', ''no'', ''false'', ''off''] then ret (Some False)
          else raise ValueError)"

text \<open>The truth value of \<open>None\<close>, \<open>False\<close> and \<open>True\<close>.\<close>

definition truthy :: "bool option \<Rightarrow> bool" where
  "truthy b = (b = Some True)"

definition init_motor :: "'f runtime \<Rightarrow> config \<Rightarrow> ('f motor, 'f) prog" where
  "init_motor py cfg =
     bind (get_section cfg ''MOTOR'') (\<lambda>settings.
     bind (item settings ''Port'') (\<lambda>port.
     bind (item settings ''Baudrate'') (\<lambda>b.
     bind (py_int py b) (\<lambda>baudrate.
     bind (item settings ''SerialTimeout'') (\<lambda>t.
     bind (py_float py t) (\<lambda>serial_timeout.
     bind (open_serial Mot port baudrate (Some serial_timeout)) (\<lambda>_.
     bind (item settings ''Name'') (\<lambda>name.
     bind (item settings ''Config'') (\<lambda>motor_config.
     bind (load_motor_config name motor_config) (\<lambda>_.
     bind (item settings ''Scaling'') (\<lambda>s.
     bind (py_float py s) (\<lambda>scaling.
     ret \<lparr>motor_name = name, motor_scaling = scaling\<rparr>))))))))))))"

definition init_vna :: "'f runtime \<Rightarrow> config \<Rightarrow> (unit, 'f) prog" where
  "init_vna py cfg =
     bind (get_section cfg ''VNA'') (\<lambda>settings.
     bind (item settings ''Port'') (\<lambda>port.
     bind (item settings ''Baudrate'') (\<lambda>b.
     bind (py_int py b) (\<lambda>baudrate.
     bind (VNA_init port baudrate) (\<lambda>_.
     bind (item settings ''Points'') (\<lambda>p.
     bind (py_int py p) (\<lambda>points.
     bind (item settings ''Power'') (\<lambda>q.
     bind (py_int py q) (\<lambda>power.
     bind (item settings ''Average'') (\<lambda>a.
     bind (py_int py a) (\<lambda>average.
     bind (set_points points) (\<lambda>_.
     bind (set_power power) (\<lambda>_.
     bind (set_avg average) (\<lambda>_.
     measurecycles py))))))))))))))"

text \<open>
  \<open>Stoerkoerpermessung.__init__\<close>; \<open>cfg\<close> is what \<open>ConfigParser.read\<close> made of the file
  \<open>config_file\<close>.
\<close>

definition Stoerkoerpermessung_init ::
  "'f runtime \<Rightarrow> config \<Rightarrow> string \<Rightarrow> string \<Rightarrow> ('f app, 'f) prog" where
  "Stoerkoerpermessung_init py cfg config_file filename =
     bind (init_motor py cfg) (\<lambda>m.
     bind (init_vna py cfg) (\<lambda>_.
     ret \<lparr>config = cfg, config_filename = config_file, out_filename = filename,
          motor = m\<rparr>))"

text \<open>
  The loop \<open>while self.motor.is_moving(): sleep(0.1)\<close> of \<open>get_freq_at\<close>. Every answer
  that keeps it going takes at least one byte from the stream of the motor controller,
  so on a finite stream it ends.
\<close>

lemma ser_readline_length:
  "ser_readline d w = (Return l, w') \<Longrightarrow> length (rx_of d w') + length l = length (rx_of d w)"
proof -
  have "length (tl (dropWhile P xs)) + Suc (length (takeWhile P xs)) = length xs"
    if "\<exists>x\<in>set xs. \<not> P x" for P and xs :: "char list"
  proof -
    from that have "dropWhile P xs \<noteq> []" by (simp add: dropWhile_eq_Nil_conv)
    then have "length (tl (dropWhile P xs)) + 1 = length (dropWhile P xs)" by (cases "dropWhile P xs") auto
    moreover have "length (takeWhile P xs) + length (dropWhile P xs) = length xs"
      by (metis length_append takeWhile_dropWhile_id)
    ultimately show ?thesis by simp
  qed
  from this[of "rx_of d w" "\<lambda>c. c \<noteq> LF"]
  show "ser_readline d w = (Return l, w') \<Longrightarrow> ?thesis"
    by (cases d) (auto simp: ser_readline_def Let_def rx_of_def set_rx_def split: if_splits)
qed

lemma ser_readline_le:
  "ser_readline d w = (r, w') \<Longrightarrow> length (rx_of d w') \<le> length (rx_of d w)"
proof -
  have "length (tl (dropWhile P xs)) \<le> length xs" for P and xs :: "char list"
    using length_dropWhile_le[of P xs] by simp
  from this[of "\<lambda>c. c \<noteq> LF" "rx_of d w"]
  show "ser_readline d w = (r, w') \<Longrightarrow> ?thesis"
    by (cases d) (auto simp: ser_readline_def Let_def rx_of_def set_rx_def split: if_splits)
qed

lemma bind_Return_iff:
  "bind m f w = (Return y, w') \<longleftrightarrow> (\<exists>x w1. m w = (Return x, w1) \<and> f x w1 = (Return y, w'))"
  by (auto simp: bind_def split: prod.splits outcome.splits)

lemma py_int_Return: "py_int py s w = (Return n, w') \<Longrightarrow> s \<noteq> [] \<and> w' = w"
  by (auto simp: py_int_def int_str_def orraise_def raise_def ret_def int_ascii_def strip_def
      Let_def split: option.splits if_splits)

lemma py_rstrip_nonempty: "py_rstrip py s \<noteq> [] \<Longrightarrow> s \<noteq> []"
  by (auto simp: py_rstrip_def rstrip_def)

lemma decode_Return: "decode bs w = (Return s, w') \<Longrightarrow> s = bs \<and> w' = w"
  by (auto simp: decode_def ret_def raise_def split: if_splits)

lemma is_moving_consumes:
  assumes "is_moving py m w = (Return b, w1)"
  shows "length (mot_rx w1) < length (mot_rx w)"
proof -
  define w0 where "w0 = w\<lparr>trace := trace w @ [Tx Mot (motor_name m @ ''PR '' @ ''MV'' @ [LF])]\<rparr>"
  from assms obtain l1 wa l2 wb r wc n where
    a: "ser_readline Mot w0 = (Return l1, wa)" and
    b: "ser_readline Mot wa = (Return l2, wb)" and
    c: "decode l2 wb = (Return r, wc)" and
    d: "py_int py (py_rstrip py r) wc = (Return n, w1)"
    unfolding is_moving_def motor_get_def bind_Return_iff
    by (auto simp: ser_write_def emit_def ret_def w0_def; blast)
  have "w1 = wc" "py_rstrip py r \<noteq> []" using py_int_Return[OF d] by auto
  moreover have "r = l2" "wc = wb" using decode_Return[OF c] by auto
  ultimately have "l2 \<noteq> []" "w1 = wb" using py_rstrip_nonempty by auto
  then show ?thesis
    using ser_readline_length[OF b] ser_readline_le[OF a]
    by (cases l2) (auto simp: rx_of_def w0_def)
qed

lemma sleep_rx: "sleep py x w = (r, w') \<Longrightarrow> mot_rx w' = mot_rx w"
  by (auto simp: sleep_def raise_def emit_def split: option.splits)

lemma wait_step:
  "(Return True, y) = is_moving py m w \<Longrightarrow> (r, ya) = sleep py x y \<Longrightarrow>
   length (mot_rx ya) < length (mot_rx w)"
  using is_moving_consumes[of py m w True y] sleep_rx[of py x y r ya] by simp

function wait_stopped :: "'f runtime \<Rightarrow> 'f motor \<Rightarrow> (unit, 'f) prog" where
  "wait_stopped py m w =
     (case is_moving py m w of
        (Return True, w1) \<Rightarrow>
          (case sleep py (fl_const py ''0.1'') w1 of
             (Return _, w2) \<Rightarrow> wait_stopped py m w2
           | (Raise e, w2) \<Rightarrow> (Raise e, w2)
           | (Hang, w2) \<Rightarrow> (Hang, w2))
      | (Return False, w1) \<Rightarrow> (Return (), w1)
      | (Raise e, w1) \<Rightarrow> (Raise e, w1)
      | (Hang, w1) \<Rightarrow> (Hang, w1))"
  by pat_completeness auto
termination
  by (relation "measure (\<lambda>(py, m, w). length (mot_rx w))") (auto intro: wait_step)

definition get_freq_at :: "'f runtime \<Rightarrow> 'f app \<Rightarrow> 'f \<Rightarrow> ('f, 'f) prog" where
  "get_freq_at py self pos =
     bind (get_section (config self) ''MEASUREMENT'') (\<lambda>ms.
     bind (item ms ''Delay'') (\<lambda>d.
     bind (py_float py d) (\<lambda>delay.
     bind (get_section (config self) ''VNA'') (\<lambda>vs.
     bind (item vs ''Average'') (\<lambda>a.
     bind (py_int py a) (\<lambda>average.
     bind (move_to py (motor self) pos) (\<lambda>_.
     bind (wait_stopped py (motor self)) (\<lambda>_.
     bind (sleep py delay) (\<lambda>_.
     bind (measurecycles py) (\<lambda>_.
     bind (search_min py 1) (\<lambda>(freq, refl).
     ret freq)))))))))))"

text \<open>The local variables of \<open>measure\<close> that the sweep reads.\<close>

record 'f plan =
  start :: 'f
  stop :: 'f
  infinite_mode :: "bool option"
  rc_mode :: "bool option"
  rc_folder :: string
  checkmode :: "bool option"
  cm_reference :: 'f
  stepsize :: 'f

text \<open>The choice of the step size, from \<open>StepSize\<close> or from \<open>Steps\<close>.\<close>

definition read_stepsize :: "'f runtime \<Rightarrow> options \<Rightarrow> 'f \<Rightarrow> 'f \<Rightarrow> ('f, 'f) prog" where
  "read_stepsize py settings start' stop' =
     (if \<not> ((settings ''StepSize'' \<noteq> None) \<noteq> (settings ''Steps'' \<noteq> None)) then
        raise RuntimeError
      else if settings ''StepSize'' \<noteq> None then
        bind (item settings ''StepSize'') (py_float py)
      else
        bind (item settings ''Steps'') (\<lambda>s.
        bind (py_int py s) (\<lambda>steps.
        bind (orraise OverflowError (fl_of_int py steps)) (\<lambda>k.
        orraise ZeroDivisionError (fl_div py (fl_sub py stop' start') k)))))"

definition read_plan :: "'f runtime \<Rightarrow> options \<Rightarrow> ('f plan, 'f) prog" where
  "read_plan py settings =
     bind (item settings ''Start'') (\<lambda>s.
     bind (py_float py s) (\<lambda>start0.
     bind (item settings ''Stop'') (\<lambda>s.
     bind (py_float py s) (\<lambda>stop0.
     bind (getboolean settings ''Infinite'') (\<lambda>infinite.
     bind (getboolean settings ''CaptureResonanceCurve'') (\<lambda>rc.
     bind (item settings ''ResonanceCurveFolder'') (\<lambda>folder.
     bind (getboolean settings ''Checkmode'') (\<lambda>cm.
     bind (item settings ''ReferencePoint'') (\<lambda>s.
     bind (py_float py s) (\<lambda>reference.
     let start1 = (if fl_less py stop0 start0 then stop0 else start0);
         stop1 = (if fl_less py stop0 start0 then start0 else stop0)
     in
     bind (read_stepsize py settings start1 stop1) (\<lambda>step.
     ret \<lparr>start = start1, stop = stop1, infinite_mode = infinite, rc_mode = rc,
          rc_folder = folder, checkmode = cm, cm_reference = reference,
          stepsize = step\<rparr>)))))))))))"

text \<open>The format \<open>{:0>n}\<close>.\<close>

definition zpad :: "nat \<Rightarrow> string \<Rightarrow> string" where
  "zpad n s = replicate (n - length s) CHR ''0'' @ s"

definition fprint :: "string \<Rightarrow> string \<Rightarrow> (unit, 'f) prog" where
  "fprint file text = emit (FileWrite file (text @ [LF]))"

text \<open>The statement \<open>if rc_mode: self.vna.write_raw(rc_folder + ... + appendix + ext)\<close>.\<close>

definition capture :: "'f runtime \<Rightarrow> 'f plan \<Rightarrow> 'f \<Rightarrow> string \<Rightarrow> (unit, 'f) prog" where
  "capture py S pos suffix =
     (if truthy (rc_mode S) then
        bind (trunc py pos) (\<lambda>n. write_raw py (rc_folder S @ zpad 4 (show_int n) @ suffix))
      else ret ())"

text \<open>
  The body of the inner loop of \<open>measure\<close> for the position \<open>pos\<close>, up to \<open>outf.flush()\<close>;
  the loop itself advances \<open>pos\<close>.
\<close>

definition point ::
  "'f runtime \<Rightarrow> 'f app \<Rightarrow> 'f plan \<Rightarrow> string \<Rightarrow> string \<Rightarrow> string \<Rightarrow> 'f \<Rightarrow> (unit, 'f) prog" where
  "point py self S outf appendix ext pos =
     bind (emit (Print (''Measuring: d = '' @ fl_str py pos @ '' mm''))) (\<lambda>_.
     bind (if truthy (checkmode S) then
             bind (get_freq_at py self (cm_reference S)) (\<lambda>f_ref.
             bind (capture py S pos (''mm_ref'' @ appendix @ ext)) (\<lambda>_.
             ret (Some f_ref)))
           else ret None) (\<lambda>ref.
     bind (get_freq_at py self pos) (\<lambda>freq.
     bind (capture py S pos (''mm'' @ appendix @ ext)) (\<lambda>_.
     bind (case ref of
             Some f_ref \<Rightarrow>
               fprint outf (fl_fmt3 py pos @ [CHR 0x09] @ fl_str py freq @ [CHR 0x09] @
                 fl_str py f_ref @ [CHR 0x09] @ fl_str py (fl_sub py freq f_ref))
           | None \<Rightarrow> fprint outf (fl_fmt3 py pos @ [CHR 0x09] @ fl_str py freq)) (\<lambda>_.
     emit (FileFlush outf))))))"

text \<open>
  The inner loop \<open>while stop - pos > -1E-6\<close>. It need not terminate (a step size of zero),
  so the result is an option and \<open>None\<close> means that the loop runs forever.
\<close>

partial_function (option) sweep ::
  "'f runtime \<Rightarrow> ('f \<Rightarrow> (unit, 'f) prog) \<Rightarrow> 'f \<Rightarrow> 'f \<Rightarrow> 'f \<Rightarrow> 'f world
   \<Rightarrow> (unit outcome \<times> 'f world) option" where
  "sweep py body stop' stepsize' pos w =
     (if fl_less py (fl_neg py (fl_const py ''1E-6'')) (fl_sub py stop' pos) then
        (case body pos w of
           (Return _, w') \<Rightarrow> sweep py body stop' stepsize' (fl_add py pos stepsize') w'
         | (Raise e, w') \<Rightarrow> Some (Raise e, w')
         | (Hang, w') \<Rightarrow> Some (Hang, w'))
      else Some (Return (), w))"

definition header :: "'f runtime \<Rightarrow> 'f app \<Rightarrow> 'f plan \<Rightarrow> string \<Rightarrow> (unit, 'f) prog" where
  "header py self S outf =
     bind (open_file outf) (\<lambda>_.
     bind (fprint outf (''# Config: '' @ config_filename self)) (\<lambda>_.
     bind now (\<lambda>date.
     bind (fprint outf (''# Date: '' @ date)) (\<lambda>_.
     bind (get_center py) (\<lambda>center.
     bind (fprint outf (''# Center: '' @ fl_str py center)) (\<lambda>_.
     bind (get_span py) (\<lambda>span.
     bind (fprint outf (''# Span: '' @ fl_str py span)) (\<lambda>_.
     bind (get_points py) (\<lambda>points.
     bind (fprint outf (''# Points: '' @ show_int points)) (\<lambda>_.
     if truthy (checkmode S) then
       fprint outf (''# P'' @ [CHR 0x09] @ ''f'' @ [CHR 0x09] @ ''f_ref'' @ [CHR 0x09] @
         ''freq-t_ref'')
     else fprint outf (''# P'' @ [CHR 0x09] @ ''f'')))))))))))"

text \<open>One pass of the outer loop up to the end of the \<open>with\<close> block: one output file.\<close>

definition table ::
  "'f runtime \<Rightarrow> 'f app \<Rightarrow> 'f plan \<Rightarrow> int \<Rightarrow> 'f world \<Rightarrow> (unit outcome \<times> 'f world) option" where
  "table py self S inf_cnt w =
     (let appendix = (if truthy (infinite_mode S) then ''_'' @ zpad 2 (show_int inf_cnt) else []);
          (name, ext) = splitext py (out_filename self);
          outf = name @ appendix @ ext
      in case header py self S outf w of
           (Return _, w') \<Rightarrow>
             sweep py (point py self S outf appendix ext) (stop S) (stepsize S) (start S) w'
         | (Raise e, w') \<Rightarrow> Some (Raise e, w')
         | (Hang, w') \<Rightarrow> Some (Hang, w'))"

text \<open>The outer loop \<open>while True\<close>, left by \<open>break\<close> unless the mode is infinite.\<close>

partial_function (option) cycles ::
  "'f runtime \<Rightarrow> 'f app \<Rightarrow> 'f plan \<Rightarrow> int \<Rightarrow> 'f world \<Rightarrow> (unit outcome \<times> 'f world) option" where
  "cycles py self S inf_cnt w =
     (case table py self S inf_cnt w of
        None \<Rightarrow> None
      | Some (Return _, w1) \<Rightarrow>
          (case move_to py (motor self) (start S) w1 of
             (Return _, w2) \<Rightarrow>
               if \<not> truthy (infinite_mode S) then Some (Return (), w2)
               else cycles py self S (inf_cnt + 1) w2
           | (Raise e, w2) \<Rightarrow> Some (Raise e, w2)
           | (Hang, w2) \<Rightarrow> Some (Hang, w2))
      | Some (Raise e, w1) \<Rightarrow> Some (Raise e, w1)
      | Some (Hang, w1) \<Rightarrow> Some (Hang, w1))"

text \<open>\<open>Stoerkoerpermessung.measure\<close>.\<close>

definition measure_run ::
  "'f runtime \<Rightarrow> 'f app \<Rightarrow> 'f world \<Rightarrow> (unit outcome \<times> 'f world) option" where
  "measure_run py self w =
     (case bind (get_section (config self) ''MEASUREMENT'') (read_plan py) w of
        (Return S, w') \<Rightarrow> cycles py self S 1 w'
      | (Raise e, w') \<Rightarrow> Some (Raise e, w')
      | (Hang, w') \<Rightarrow> Some (Hang, w'))"

text \<open>The script: construct the measurement, then run \<open>measure\<close>.\<close>

definition main ::
  "'f runtime \<Rightarrow> config \<Rightarrow> string \<Rightarrow> string \<Rightarrow> 'f world \<Rightarrow> (unit outcome \<times> 'f world) option" where
  "main py cfg config_file file w =
     (case Stoerkoerpermessung_init py cfg config_file file w of
        (Return measurement, w') \<Rightarrow> measure_run py measurement w'
      | (Raise e, w') \<Rightarrow> Some (Raise e, w')
      | (Hang, w') \<Rightarrow> Some (Hang, w'))"

section \<open>Notions used to state the properties\<close>

text \<open>The value of a string of decimal digits.\<close>

definition dec_value :: "string \<Rightarrow> nat" where
  "dec_value s = foldl (\<lambda>a c. 10 * a + digit_val c) 0 s"

text \<open>
  The \<open>i\<close>-th pair of a payload: the numbers encoded, little-endian, by the bytes
  \<open>16 i .. 16 i + 7\<close> and \<open>16 i + 8 .. 16 i + 15\<close>.
\<close>

definition pair_at :: "'f runtime \<Rightarrow> bytes \<Rightarrow> nat \<Rightarrow> 'f \<times> 'f" where
  "pair_at py payload i =
     (fl_of_bits py (le_word (take 8 (drop (16 * i) payload))),
      fl_of_bits py (le_word (take 8 (drop (16 * i + 8) payload))))"

text \<open>What is left of a stream once \<open>readline\<close> has taken its first line.\<close>

definition after_line :: "bytes \<Rightarrow> bytes" where
  "after_line rest = (if LF \<in> set rest then tl (dropWhile (\<lambda>c. c \<noteq> LF) rest) else [])"

text \<open>The two commands \<open>read_raw\<close> sends.\<close>

definition trace_query :: "'f event list" where
  "trace_query = [Tx Vna (''FORMAT:DATA REAL,64'' @ [LF]), Tx Vna (''TRAC? CH1DATA'' @ [LF])]"

text \<open>Running a loop body on the positions of a list, in order.\<close>

fun for_each :: "('a \<Rightarrow> (unit, 'f) prog) \<Rightarrow> 'a list \<Rightarrow> (unit, 'f) prog" where
  "for_each body [] = ret ()"
| "for_each body (x # xs) = bind (body x) (\<lambda>_. for_each body xs)"

text \<open>
  The float that the integer \<open>n\<close> converts to, and what binary64 arithmetic guarantees
  for integers of magnitude at most \<open>2^53\<close>: they convert without loss, sums, differences,
  products and exact quotients of them are exact while they stay in that range,
  comparison agrees with the integers, and \<open>-1E-6\<close> lies strictly between \<open>-1\<close> and \<open>0\<close>.
  The integer 0 converts to the positive zero. A sum or a difference that is zero is the
  positive zero as well, but a product or a quotient of zero and a negative number is the
  negative zero, which is another float: the clauses for products and quotients leave
  these cases out.
\<close>

definition fl_int :: "'f runtime \<Rightarrow> int \<Rightarrow> 'f" where
  "fl_int py n = the (fl_of_int py n)"

definition small :: "int \<Rightarrow> bool" where
  "small n \<longleftrightarrow> \<bar>n\<bar> \<le> 2 ^ 53"

definition small_int_exact :: "'f runtime \<Rightarrow> bool" where
  "small_int_exact py \<longleftrightarrow>
     (\<forall>a. small a \<longrightarrow> fl_of_int py a \<noteq> None) \<and>
     (\<forall>a b. small a \<and> small b \<and> small (a + b) \<longrightarrow>
        fl_add py (fl_int py a) (fl_int py b) = fl_int py (a + b)) \<and>
     (\<forall>a b. small a \<and> small b \<and> small (a - b) \<longrightarrow>
        fl_sub py (fl_int py a) (fl_int py b) = fl_int py (a - b)) \<and>
     (\<forall>a b. small a \<and> small b \<and> small (a * b) \<and> (a * b \<noteq> 0 \<or> (0 \<le> a \<and> 0 \<le> b)) \<longrightarrow>
        fl_mul py (fl_int py a) (fl_int py b) = fl_int py (a * b)) \<and>
     (\<forall>a b. small a \<and> small b \<and> b \<noteq> 0 \<and> b dvd a \<and> (a \<noteq> 0 \<or> 0 < b) \<longrightarrow>
        fl_div py (fl_int py a) (fl_int py b) = Some (fl_int py (a div b))) \<and>
     (\<forall>a b. small a \<and> small b \<longrightarrow>
        fl_less py (fl_int py a) (fl_int py b) = (a < b)) \<and>
     (\<forall>a. small a \<longrightarrow>
        fl_less py (fl_neg py (fl_const py ''1E-6'')) (fl_int py a) = (0 \<le> a))"

section \<open>A runtime and a world for concrete runs\<close>

text \<open>
  Numbers are rationals and the arithmetic is exact, as binary64 arithmetic is on the
  values of the runs below. \<open>bits_value\<close> is the value of a finite binary64 pattern,
  \<open>decimal\<close> reads digits with an optional fraction, and the two formats are those of
  whole numbers, the only numbers the runs print.
\<close>

definition bits_value :: "double \<Rightarrow> rat" where
  "bits_value x =
     (let n = unat x; e = (n div 2 ^ 52) mod 2 ^ 11; m = n mod 2 ^ 52;
          v = (if e = 0 then of_nat m / 2 ^ 1074
               else if e = 2047 then 0
               else of_nat ((2 ^ 52 + m) * 2 ^ e) / 2 ^ 1075)
      in if n div 2 ^ 63 = 1 then - v else v)"

definition decimal :: "string \<Rightarrow> rat option" where
  "decimal s =
     (let t = strip s; a = takeWhile (\<lambda>c. c \<noteq> CHR ''.'') t; b = dropWhile (\<lambda>c. c \<noteq> CHR ''.'') t
      in case int_ascii a of
           None \<Rightarrow> None
         | Some i \<Rightarrow>
             if b = [] then Some (of_int i)
             else if list_all is_digit (tl b) \<and> 0 \<le> i
             then Some (of_int i + of_nat (dec_value (tl b)) / 10 ^ length (tl b))
             else None)"

definition exact_runtime :: "rat runtime" where
  "exact_runtime =
     \<lparr>int_max_str_digits = 4300,
      int_unicode = (\<lambda>s. None),
      fl_parse = decimal,
      fl_const = (\<lambda>s. if s = ''1E-6'' then 1 / 1000000 else if s = ''0.1'' then 1 / 10 else 1),
      fl_of_int = (\<lambda>i. Some (of_int i)),
      fl_of_bits = bits_value,
      fl_add = (\<lambda>x y. x + y),
      fl_sub = (\<lambda>x y. x - y),
      fl_mul = (\<lambda>x y. x * y),
      fl_div = (\<lambda>x y. if y = 0 then None else Some (x / y)),
      fl_neg = (\<lambda>x. - x),
      fl_less = (\<lambda>x y. x < y),
      fl_trunc = (\<lambda>x. Inr (if x < 0 then - \<lfloor>- x\<rfloor> else \<lfloor>x\<rfloor>)),
      fl_str = (\<lambda>x. show_int \<lfloor>x\<rfloor> @ ''.0''),
      fl_fmt3 = (\<lambda>x. show_int \<lfloor>x\<rfloor> @ ''.000''),
      fl_sleep = (\<lambda>x. if x < 0 then Some ValueError else None),
      str_rstrip = rstrip,
      splitext = (\<lambda>s. (takeWhile (\<lambda>c. c \<noteq> CHR ''.'') s, dropWhile (\<lambda>c. c \<noteq> CHR ''.'') s))\<rparr>"

text \<open>
  A world in which every port and file opens and the devices send what \<open>vna\<close> and \<open>mot\<close>
  say; the ports are as the constructors leave them (the analyser's without timeout).
\<close>

definition world0 :: "bytes \<Rightarrow> bytes \<Rightarrow> rat world" where
  "world0 vna mot =
     \<lparr>vna_rx = vna, vna_timeout = False, mot_rx = mot, mot_timeout = True,
      serial_open = (\<lambda>port baudrate t. None), file_open = (\<lambda>file. None),
      conf_lines = (\<lambda>file. []), clock = ''Mon Jan  1 00:00:00 2018'', trace = []\<rparr>"

section \<open>Decoding the binary block\<close>

lemma bind_ret [simp]: "bind (ret x) f w = f x w"
  by (simp add: bind_def ret_def)

lemma bind_raise [simp]: "bind (raise e) f w = (Raise e, w)"
  by (simp add: bind_def raise_def)

lemma dec_body_digits:
  "list_all is_digit s \<Longrightarrow> dec_body acc s = Some (foldl (\<lambda>a c. 10 * a + digit_val c) acc s)"
  by (induction acc s rule: dec_body.induct) auto

lemma digit_not_cspace: "is_digit c \<Longrightarrow> \<not> is_cspace c"
  by (auto simp: is_digit_def is_cspace_def)

lemma digit_ascii: "is_digit c \<Longrightarrow> is_ascii c"
  by (auto simp: is_digit_def is_ascii_def)

lemma strip_digits: "list_all is_digit s \<Longrightarrow> strip s = s"
proof (cases s rule: rev_cases)
  case Nil
  then show ?thesis by (simp add: strip_def)
next
  case (snoc ys y)
  assume "list_all is_digit s"
  with snoc have y: "\<not> is_cspace y" and ys: "list_all is_digit ys"
    by (auto simp: digit_not_cspace)
  have "rev (dropWhile is_cspace (rev s)) = s" using snoc y by simp
  moreover have "dropWhile is_cspace s = s"
  proof (cases s)
    case Nil then show ?thesis by simp
  next
    case (Cons a as)
    with \<open>list_all is_digit s\<close> have "\<not> is_cspace a" by (auto simp: digit_not_cspace)
    with Cons show ?thesis by simp
  qed
  ultimately show ?thesis by (simp add: strip_def)
qed

lemma int_ascii_digits:
  assumes "list_all is_digit s" "s \<noteq> []"
  shows "int_ascii s = Some (int (dec_value s))"
proof -
  obtain c cs where s: "s = c # cs" using assms(2) by (cases s) auto
  have c: "is_digit c" using assms(1) s by simp
  then have "c \<noteq> CHR ''-''" "c \<noteq> CHR ''+''" by (auto simp: is_digit_def)
  moreover have "dec_lit s = Some (dec_value s)"
    using c s dec_body_digits[OF assms(1), of 0] by (simp add: dec_lit_def dec_value_def)
  ultimately show ?thesis
    using strip_digits[OF assms(1)] s by (simp add: int_ascii_def)
qed

lemma utf8_valid_ascii: "list_all (\<lambda>n. n < 0x80) ns \<Longrightarrow> utf8_valid ns"
  by (induction ns) auto

lemma decode_ascii: "list_all is_ascii s \<Longrightarrow> decode s w = (Return s, w)"
  using utf8_valid_ascii[of "map of_char s"]
  by (simp add: decode_def ret_def list_all_iff is_ascii_def)

lemma py_int_digits:
  assumes "list_all is_digit s" "s \<noteq> []" "length s \<le> 640"
  shows "py_int py s w = (Return (int (dec_value s)), w)"
proof -
  have "list_all is_ascii s" using assms(1) by (auto simp: list_all_iff digit_ascii)
  moreover have "length (filter is_digit s) \<le> 640"
    by (rule order_trans[OF length_filter_le assms(3)])
  ultimately show ?thesis
    by (simp add: py_int_def int_str_def Let_def int_ascii_digits[OF assms(1,2)] orraise_def
        ret_def)
qed


lemma ser_read_enough:
  "rx_of d w = bs @ rest \<Longrightarrow> length bs = n \<Longrightarrow>
   ser_read d n w = (Return bs, set_rx d rest w)"
  by (simp add: ser_read_def)

lemma pair_at_shift:
  "length p = 16 \<Longrightarrow> pair_at py (p @ q) (Suc i) = pair_at py q i"
  by (simp add: pair_at_def add.commute)

lemma read_pts_ok:
  "vna_rx w = payload @ rest \<Longrightarrow> length payload = 16 * n \<Longrightarrow>
   read_pts py n acc w =
     (Return (acc @ map (pair_at py payload) [0..<n]), w\<lparr>vna_rx := rest\<rparr>)"
proof (induction n arbitrary: acc payload w)
  case 0
  then show ?case by (simp add: ret_def)
next
  case (Suc n)
  define b1 where "b1 = take 8 payload"
  define b2 where "b2 = take 8 (drop 8 payload)"
  define q where "q = drop 16 payload"
  have len: "length b1 = 8" "length b2 = 8" "length q = 16 * n"
    using Suc.prems(2) by (simp_all add: b1_def b2_def q_def)
  have split: "payload = b1 @ b2 @ q"
  proof -
    have "drop 8 payload = b2 @ q"
      using append_take_drop_id[of 8 "drop 8 payload"] by (simp add: b2_def q_def)
    then show ?thesis
      using append_take_drop_id[of 8 payload] by (simp add: b1_def)
  qed
  have r1: "ser_read Vna 8 w = (Return b1, w\<lparr>vna_rx := b2 @ q @ rest\<rparr>)"
    using ser_read_enough[of Vna w b1 "b2 @ q @ rest" 8] Suc.prems(1) split len
    by (simp add: rx_of_def set_rx_def)
  have r2: "ser_read Vna 8 (w\<lparr>vna_rx := b2 @ q @ rest\<rparr>) = (Return b2, w\<lparr>vna_rx := q @ rest\<rparr>)"
    using ser_read_enough[of Vna "w\<lparr>vna_rx := b2 @ q @ rest\<rparr>" b2 "q @ rest" 8] len
    by (simp add: rx_of_def set_rx_def)
  have ih: "read_pts py n (acc @ [pair_at py payload 0]) (w\<lparr>vna_rx := q @ rest\<rparr>) =
      (Return ((acc @ [pair_at py payload 0]) @ map (pair_at py q) [0..<n]), w\<lparr>vna_rx := rest\<rparr>)"
    using Suc.IH[of "w\<lparr>vna_rx := q @ rest\<rparr>" q "acc @ [pair_at py payload 0]"] len by simp
  have p0: "pair_at py payload 0 = (fl_of_bits py (le_word b1), fl_of_bits py (le_word b2))"
    by (simp add: pair_at_def b1_def b2_def)
  have sh: "map (pair_at py payload) [0..<Suc n] = pair_at py payload 0 # map (pair_at py q) [0..<n]"
  proof -
    have "\<And>i. pair_at py payload (Suc i) = pair_at py q i"
      using pair_at_shift[of "b1 @ b2" py q] split len by simp
    then show ?thesis by (simp add: map_upt_Suc del: upt_Suc)
  qed
  show ?case
    unfolding read_pts.simps
    by (simp add: bind_def r1 r2 unpack_d_def ret_def len ih[unfolded p0] sh p0 del: upt_Suc)
qed


lemma digit_char_digit: "n \<le> 9 \<Longrightarrow> is_digit (digit_char n)"
  by (simp add: is_digit_def digit_char_def)

lemma digit_char_val: "n \<le> 9 \<Longrightarrow> dec_value [digit_char n] = n"
  by (simp add: dec_value_def digit_val_def digit_char_def)

lemma ser_readline_rest:
  "vna_rx w = rest \<Longrightarrow> LF \<in> set rest \<or> vna_timeout w \<Longrightarrow>
   ser_readline Vna w =
     (Return (if LF \<in> set rest then takeWhile (\<lambda>c. c \<noteq> LF) rest @ [LF] else rest),
      w\<lparr>vna_rx := after_line rest\<rparr>)"
  by (auto simp: ser_readline_def rx_of_def set_rx_def has_timeout_def after_line_def Let_def)

lemma read_raw_block:
  assumes rx: "vna_rx w = CHR ''#'' # digit_char (length field) # field @ payload @ rest"
    and field: "field \<noteq> []" "length field \<le> 9" "list_all is_digit field"
    and payload: "length payload = 16 * (dec_value field div 16)"
    and line: "LF \<in> set rest \<or> vna_timeout w"
  shows "read_raw py w =
    (Return (Some (map (pair_at py payload) [0..<dec_value field div 16])),
     w\<lparr>vna_rx := after_line rest,
       trace := trace w @ [Tx Vna (''FORMAT:DATA REAL,64'' @ [LF]), Tx Vna (''TRAC? CH1DATA'' @ [LF])]\<rparr>)"
proof -
  define L where "L = digit_char (length field)"
  have d1: "decode ''#'' v = (Return ''#'', v)" for v :: "'a world"
    by (rule decode_ascii) (simp add: is_ascii_def)
  have Ld: "list_all is_digit [L]"
    using field(2) by (simp add: L_def digit_char_digit)
  have d2: "decode [L] v = (Return [L], v)" for v :: "'a world"
    by (rule decode_ascii) (use Ld in \<open>simp add: digit_ascii\<close>)
  have i2: "py_int py [L] v = (Return (int (length field)), v)" for v :: "'a world"
    using py_int_digits[OF Ld, of py v] field(2) by (simp add: L_def digit_char_val)
  have d3: "decode field v = (Return field, v)" for v :: "'a world"
    by (rule decode_ascii) (use field(3) in \<open>auto simp: list_all_iff digit_ascii\<close>)
  have i3: "py_int py field v = (Return (int (dec_value field)), v)" for v :: "'a world"
    by (rule py_int_digits[OF field(3) field(1)]) (use field(2) in simp)
  have n: "nat (int (dec_value field) div 16) = dec_value field div 16"
    using zdiv_int[of "dec_value field" 16] by simp
  have p: "vna_rx v = payload @ rest \<Longrightarrow>
      read_pts py (dec_value field div 16) [] v =
      (Return (map (pair_at py payload) [0..<dec_value field div 16]), v\<lparr>vna_rx := rest\<rparr>)"
    for v :: "'a world"
    using read_pts_ok[of v payload rest "dec_value field div 16" py "[]"] payload by simp
  have l: "vna_rx v = rest \<Longrightarrow> vna_timeout v = vna_timeout w \<Longrightarrow>
      ser_readline Vna v =
        (Return (if LF \<in> set rest then takeWhile (\<lambda>c. c \<noteq> LF) rest @ [LF] else rest),
         v\<lparr>vna_rx := after_line rest\<rparr>)" for v :: "'a world"
    using ser_readline_rest[of v rest] line by simp
  show ?thesis
    unfolding read_raw_def
    by (simp add: bind_def vna_cmd_def ser_write_def emit_def ser_read_def rx_of_def set_rx_def
        Let_def rx L_def[symmetric] d1 d2 i2 d3 i3 n p l ret_def)
qed


text \<open>
  C1. A block whose length field declares a positive multiple of 16 and is followed by
  that many payload bytes and a line end (on a port with a timeout the line end may be
  missing) decodes to exactly \<open>dataLength / 16\<close> pairs; the \<open>i\<close>-th pair is made of the
  two little-endian doubles at the bytes \<open>16 i\<close> and \<open>16 i + 8\<close> of the payload.
\<close>

theorem read_raw_block_pairs:
  assumes "vna_rx w = CHR ''#'' # digit_char (length field) # field @ payload @ rest"
    and "field \<noteq> []" "length field \<le> 9" "list_all is_digit field"
    and "dec_value field = length payload" "0 < length payload" "16 dvd length payload"
    and "LF \<in> set rest \<or> vna_timeout w"
  shows "\<exists>pts w'. read_raw py w = (Return (Some pts), w') \<and>
           length pts = length payload div 16 \<and>
           (\<forall>i < length pts. pts ! i =
              (fl_of_bits py (le_word (take 8 (drop (16 * i) payload))),
               fl_of_bits py (le_word (take 8 (drop (16 * i + 8) payload))))) \<and>
           vna_rx w' = after_line rest \<and> trace w' = trace w @ trace_query"
proof -
  have "length payload = 16 * (dec_value field div 16)"
    using assms(5,7) by auto
  from read_raw_block[OF assms(1-4) this assms(8), of py]
  show ?thesis
    using assms(5) by (simp add: pair_at_def trace_query_def)
qed

definition one_bytes :: bytes where
  "one_bytes = [CHR 0x00, CHR 0x00, CHR 0x00, CHR 0x00, CHR 0x00, CHR 0x00, CHR 0xF0, CHR 0x3F]"

definition two_bytes :: bytes where
  "two_bytes = [CHR 0x00, CHR 0x00, CHR 0x00, CHR 0x00, CHR 0x00, CHR 0x00, CHR 0x00, CHR 0x40]"

lemmas run_simps =
  bind_def ret_def raise_def emit_def orraise_def vna_cmd_def ser_write_def ser_read_def
  ser_readline_def rx_of_def set_rx_def has_timeout_def decode_def py_int_def int_str_def
  py_float_def int_ascii_def strip_def rstrip_def dec_lit_def is_digit_def is_space_def
  is_cspace_def is_ascii_def
  digit_val_def unpack_d_def Let_def LF_def cont_byte_def vna_query_def

lemma digit_char_eq: "(of_char c :: nat) = 48 + n \<Longrightarrow> digit_char n = c"
  unfolding digit_char_def by (metis char_of_char)

lemma digit_char_two: "digit_char (Suc (Suc 0)) = CHR ''2''"
  by (rule digit_char_eq) simp

lemma le_word_one: "le_word one_bytes = 0x3FF0000000000000"
  by (simp add: le_word_def one_bytes_def)

lemma bits_one_two [simp]:
  "bits_value (le_word one_bytes) = 1" "bits_value (le_word two_bytes) = 2"
  by (simp_all add: bits_value_def le_word_def Let_def one_bytes_def two_bytes_def)

lemma length_one_two [simp]: "length one_bytes = 8" "length two_bytes = 8"
  by (simp_all add: one_bytes_def two_bytes_def)

theorem read_raw_block_pairs_witness:
  "\<exists>pts w'. read_raw exact_runtime (world0 (''#216'' @ one_bytes @ two_bytes @ [LF]) []) =
       (Return (Some pts), w') \<and>
     pts = [(1, 2)] \<and> vna_rx w' = [] \<and> trace w' = trace_query"
proof -
  let ?w = "world0 (''#216'' @ one_bytes @ two_bytes @ [LF]) []"
  have "\<exists>pts w'. read_raw exact_runtime ?w = (Return (Some pts), w') \<and>
           length pts = length (one_bytes @ two_bytes) div 16 \<and>
           (\<forall>i < length pts. pts ! i =
              (fl_of_bits exact_runtime (le_word (take 8 (drop (16 * i) (one_bytes @ two_bytes)))),
               fl_of_bits exact_runtime (le_word (take 8 (drop (16 * i + 8) (one_bytes @ two_bytes)))))) \<and>
           vna_rx w' = after_line [LF] \<and> trace w' = trace ?w @ trace_query"
    by (rule read_raw_block_pairs[where field = "''16''"])
      (simp_all add: world0_def digit_char_two is_digit_def dec_value_def digit_val_def)
  then obtain pts w' where r: "read_raw exact_runtime ?w = (Return (Some pts), w')"
    and l: "length pts = 1"
    and p: "pts ! 0 = (bits_value (le_word one_bytes), bits_value (le_word two_bytes))"
    and w': "vna_rx w' = after_line [LF]" "trace w' = trace ?w @ trace_query"
    by (auto simp: exact_runtime_def)
  from l p have "pts = [(1, 2)]" by (cases pts) auto
  with r w' show ?thesis by (simp add: after_line_def world0_def)
qed

section \<open>Odd lengths, short streams and responses without a block\<close>

lemma pair_at_take:
  assumes "i < k"
  shows "pair_at py (take (16 * k) payload) i = pair_at py payload i"
proof -
  have "take 8 (drop a (take (16 * k) payload)) = take 8 (drop a payload)" if "a + 8 \<le> 16 * k" for a
    using that by (simp add: drop_take min_def)
  from this[of "16 * i"] this[of "16 * i + 8"] assms show ?thesis
    by (simp add: pair_at_def)
qed

text \<open>
  C2, as the code has it. A declared length that is not a multiple of 16 is no error:
  \<open>read_raw\<close> returns the \<open>dataLength div 16\<close> pairs made of the first
  \<open>16 * (dataLength div 16)\<close> payload bytes, in order, and then drops the input up to and
  including the next line feed, the remaining payload bytes among it.
\<close>

theorem read_raw_floor_pairs:
  assumes "vna_rx w = CHR ''#'' # digit_char (length field) # field @ payload @ rest"
    and "field \<noteq> []" "length field \<le> 9" "list_all is_digit field"
    and "dec_value field = length payload" "\<not> 16 dvd length payload"
    and "LF \<in> set (drop (16 * (length payload div 16)) payload @ rest) \<or> vna_timeout w"
  shows "\<exists>pts w'. read_raw py w = (Return (Some pts), w') \<and>
           length pts = length payload div 16 \<and>
           (\<forall>i < length pts. pts ! i =
              (fl_of_bits py (le_word (take 8 (drop (16 * i) payload))),
               fl_of_bits py (le_word (take 8 (drop (16 * i + 8) payload))))) \<and>
           vna_rx w' = after_line (drop (16 * (length payload div 16)) payload @ rest) \<and>
           trace w' = trace w @ trace_query"
proof -
  define k where "k = length payload div 16"
  define used where "used = take (16 * k) payload"
  define left where "left = drop (16 * k) payload @ rest"
  have rx: "vna_rx w = CHR ''#'' # digit_char (length field) # field @ used @ left"
    using assms(1) by (simp add: used_def left_def)
  have len: "length used = 16 * (dec_value field div 16)"
    using assms(5) by (simp add: used_def k_def)
  have line: "LF \<in> set left \<or> vna_timeout w"
    using assms(7) by (simp add: left_def k_def)
  have "\<forall>i<k. pair_at py used i = pair_at py payload i"
    by (simp add: used_def pair_at_take)
  with read_raw_block[OF rx assms(2-4) len line, of py] show ?thesis
    using assms(5) by (simp add: pair_at_def trace_query_def k_def left_def)
qed

text \<open>
  C2 as stated fails: a block that declares 24 payload bytes decodes to one pair and no
  error is raised.
\<close>

theorem read_raw_floor_pairs_counterexample:
  "read_raw exact_runtime (world0 (''#224'' @ one_bytes @ two_bytes @ one_bytes @ [LF]) []) =
     (Return (Some [(1, 2)]), (world0 [] [])\<lparr>trace := trace_query\<rparr>)"
  by (simp add: read_raw_def run_simps world0_def trace_query_def exact_runtime_def
      one_bytes_def two_bytes_def bits_value_def le_word_def)


lemma digit_char_one: "digit_char (Suc 0) = CHR ''1''"
  by (rule digit_char_eq) simp

theorem read_raw_floor_pairs_witness:
  "\<exists>pts w'. read_raw exact_runtime (world0 (''#18'' @ two_bytes @ [LF]) []) =
       (Return (Some pts), w') \<and>
     pts = [] \<and> vna_rx w' = [] \<and> trace w' = trace_query"
proof -
  let ?w = "world0 (''#18'' @ two_bytes @ [LF]) []"
  have "\<exists>pts w'. read_raw exact_runtime ?w = (Return (Some pts), w') \<and>
           length pts = length two_bytes div 16 \<and>
           (\<forall>i < length pts. pts ! i =
              (fl_of_bits exact_runtime (le_word (take 8 (drop (16 * i) two_bytes))),
               fl_of_bits exact_runtime (le_word (take 8 (drop (16 * i + 8) two_bytes))))) \<and>
           vna_rx w' = after_line (drop (16 * (length two_bytes div 16)) two_bytes @ [LF]) \<and>
           trace w' = trace ?w @ trace_query"
    by (rule read_raw_floor_pairs[where field = "''8''"])
      (simp_all add: world0_def digit_char_one is_digit_def dec_value_def digit_val_def LF_def)
  then show ?thesis
    by (auto simp: after_line_def world0_def two_bytes_def LF_def)
qed

lemma read_pts_short:
  "length (vna_rx w) < 16 * n \<Longrightarrow>
   fst (read_pts py n acc w) = (if vna_timeout w then Raise StructError else Hang)"
proof (induction n arbitrary: acc w)
  case 0
  then show ?case by simp
next
  case (Suc n)
  consider "length (vna_rx w) < 8" | "8 \<le> length (vna_rx w)" "length (vna_rx w) < 16"
    | "16 \<le> length (vna_rx w)" by linarith
  then show ?case
  proof cases
    case 1
    then show ?thesis
      by (simp add: bind_def ser_read_def rx_of_def set_rx_def has_timeout_def unpack_d_def
          raise_def Let_def)
  next
    case 2
    then have "\<not> 8 \<le> length (vna_rx w) - 8" by linarith
    with 2 show ?thesis
      by (simp add: bind_def ser_read_def rx_of_def set_rx_def has_timeout_def unpack_d_def
          raise_def ret_def Let_def)
  next
    case 3
    let ?w2 = "w\<lparr>vna_rx := drop 16 (vna_rx w)\<rparr>"
    have "length (vna_rx ?w2) < 16 * n" using Suc.prems 3 by simp
    from Suc.IH[OF this] 3 show ?thesis
      by (simp add: bind_def ser_read_def rx_of_def set_rx_def has_timeout_def unpack_d_def
          raise_def ret_def Let_def)
  qed
qed

lemma VNA_init_timeout: "VNA_init port baudrate w0 = (Return u, w) \<Longrightarrow> \<not> vna_timeout w"
  by (auto simp: VNA_init_def open_serial_def bind_def vna_cmd_def ser_write_def emit_def
      split: option.splits)

text \<open>
  C3, as the code has it. When the stream ends, after a well-formed header, before the
  \<open>16 * (dataLength div 16)\<close> payload bytes that the loop reads, \<open>read_raw\<close> returns no
  samples: on a port without read timeout, which is how \<open>VNA.__init__\<close> opens it, the call
  never returns; on a port with a timeout the short read makes \<open>unpack\<close> raise its own
  error.
\<close>

theorem read_raw_truncated:
  assumes "vna_rx w = CHR ''#'' # digit_char (length field) # field @ avail"
    and "field \<noteq> []" "length field \<le> 9" "list_all is_digit field"
    and "length avail < 16 * (dec_value field div 16)"
  shows "fst (read_raw py w) = (if vna_timeout w then Raise StructError else Hang) \<and>
         (\<forall>port baudrate w0. VNA_init port baudrate w0 = (Return (), w) \<longrightarrow>
            fst (read_raw py w) = Hang)"
proof -
  define L where "L = digit_char (length field)"
  have d1: "decode ''#'' v = (Return ''#'', v)" for v :: "'a world"
    by (rule decode_ascii) (simp add: is_ascii_def)
  have Ld: "list_all is_digit [L]"
    using assms(3) by (simp add: L_def digit_char_digit)
  have d2: "decode [L] v = (Return [L], v)" for v :: "'a world"
    by (rule decode_ascii) (use Ld in \<open>simp add: digit_ascii\<close>)
  have i2: "py_int py [L] v = (Return (int (length field)), v)" for v :: "'a world"
    using py_int_digits[OF Ld, of py v] assms(3) by (simp add: L_def digit_char_val)
  have d3: "decode field v = (Return field, v)" for v :: "'a world"
    by (rule decode_ascii) (use assms(4) in \<open>auto simp: list_all_iff digit_ascii\<close>)
  have i3: "py_int py field v = (Return (int (dec_value field)), v)" for v :: "'a world"
    by (rule py_int_digits[OF assms(4) assms(2)]) (use assms(3) in simp)
  have n: "nat (int (dec_value field) div 16) = dec_value field div 16"
    using zdiv_int[of "dec_value field" 16] by simp
  define g where "g v = snd (read_pts py (dec_value field div 16) [] v)" for v :: "'a world"
  have p: "vna_rx v = avail \<Longrightarrow> vna_timeout v = vna_timeout w \<Longrightarrow>
      read_pts py (dec_value field div 16) [] v =
        (if vna_timeout w then Raise StructError else Hang, g v)" for v :: "'a world"
    using read_pts_short[of v "dec_value field div 16" py "[]"] assms(5)
    by (simp add: g_def prod_eq_iff)
  have *: "fst (read_raw py w) = (if vna_timeout w then Raise StructError else Hang)"
    unfolding read_raw_def
    by (simp add: bind_def vna_cmd_def ser_write_def emit_def ser_read_def rx_of_def set_rx_def
        Let_def assms(1) L_def[symmetric] d1 d2 i2 d3 i3 n p ret_def)
  then show ?thesis
    using VNA_init_timeout by auto
qed


text \<open>
  C3 as stated fails: on the port as \<open>VNA.__init__\<close> opens it, a block that declares 16
  payload bytes and delivers 8 makes \<open>read_raw\<close> wait forever.
\<close>

theorem read_raw_truncated_counterexample:
  "VNA_init ''/dev/ttyUSB1'' 57600 ((world0 (''#216'' @ one_bytes) [])\<lparr>vna_timeout := True\<rparr>) =
     (Return (), (world0 (''#216'' @ one_bytes) [])\<lparr>trace := [Tx Vna (''@REM'' @ [LF])]\<rparr>) \<and>
   fst (read_raw exact_runtime
     ((world0 (''#216'' @ one_bytes) [])\<lparr>trace := [Tx Vna (''@REM'' @ [LF])]\<rparr>)) = Hang"
  by (simp add: VNA_init_def open_serial_def read_raw_def run_simps world0_def
      exact_runtime_def one_bytes_def)

theorem read_raw_truncated_witness:
  "fst (read_raw exact_runtime ((world0 (''#216'' @ one_bytes) [])\<lparr>vna_timeout := True\<rparr>)) =
     Raise StructError \<and>
   fst (read_raw exact_runtime
     ((world0 (''#232'' @ one_bytes @ two_bytes) [])\<lparr>trace := [Tx Vna (''@REM'' @ [LF])]\<rparr>)) =
     Hang"
proof -
  have i: "VNA_init ''/dev/ttyUSB1'' 57600 (world0 (''#232'' @ one_bytes @ two_bytes) []) =
     (Return (), (world0 (''#232'' @ one_bytes @ two_bytes) [])
        \<lparr>trace := [Tx Vna (''@REM'' @ [LF])]\<rparr>)"
    by (simp add: VNA_init_def open_serial_def run_simps world0_def)
  show ?thesis
    using read_raw_truncated[of "(world0 (''#216'' @ one_bytes) [])\<lparr>vna_timeout := True\<rparr>"
        "''16''" one_bytes exact_runtime]
      read_raw_truncated[of "(world0 (''#232'' @ one_bytes @ two_bytes) [])
          \<lparr>trace := [Tx Vna (''@REM'' @ [LF])]\<rparr>" "''32''" "one_bytes @ two_bytes" exact_runtime]
      i
    by (simp add: world0_def digit_char_two is_digit_def dec_value_def digit_val_def)
qed

lemma read_raw_no_marker_aux:
  assumes "vna_rx w = c # rest" "is_ascii c" "c \<noteq> CHR ''#''"
  shows "read_raw py w = (Return None, w\<lparr>vna_rx := rest, trace := trace w @ trace_query\<rparr>)"
proof -
  have "decode [c] v = (Return [c], v)" for v :: "'a world"
    by (rule decode_ascii) (simp add: assms(2))
  then show ?thesis
    unfolding read_raw_def
    by (simp add: bind_def vna_cmd_def ser_write_def emit_def ser_read_def rx_of_def set_rx_def
        Let_def assms ret_def trace_query_def)
qed

text \<open>
  C8, as the code has it. When the first byte of the response is an ASCII byte other than
  the marker \<open>#\<close>, \<open>read_raw\<close> returns \<open>None\<close> and leaves the channel positioned
  immediately after that byte, the only one it consumed.
\<close>

theorem read_raw_no_marker:
  assumes "vna_rx w = c # rest" "is_ascii c" "c \<noteq> CHR ''#''"
  shows "read_raw py w = (Return None, w\<lparr>vna_rx := rest, trace := trace w @ trace_query\<rparr>)"
  using assms by (rule read_raw_no_marker_aux)

text \<open>
  C8 as stated fails twice. A first byte \<open>0xFF\<close> is not the marker, and \<open>read_raw\<close> raises
  \<open>UnicodeDecodeError\<close> instead of returning \<open>None\<close>. And after the text response
  \<open>ERR\<close> the rest of that line is still in the channel, so that the next query,
  \<open>get_avg\<close>, reads \<open>RR\<close> instead of the answer \<open>3\<close> and fails.
\<close>

theorem read_raw_no_marker_counterexample:
  "fst (read_raw exact_runtime (world0 [CHR 0xFF] [])) = Raise UnicodeDecodeError \<and>
   read_raw exact_runtime (world0 (''ERR'' @ [LF] @ ''3'' @ [LF]) []) =
     (Return None, (world0 (''RR'' @ [LF] @ ''3'' @ [LF]) [])\<lparr>trace := trace_query\<rparr>) \<and>
   fst (get_avg exact_runtime ((world0 (''RR'' @ [LF] @ ''3'' @ [LF]) [])\<lparr>trace := trace_query\<rparr>)) =
     Raise ValueError"
  by (simp add: read_raw_def get_avg_def run_simps world0_def trace_query_def exact_runtime_def)

theorem read_raw_no_marker_witness:
  "read_raw exact_runtime (world0 (''ERR'' @ [LF]) []) =
     (Return None, (world0 (''RR'' @ [LF]) [])\<lparr>trace := trace_query\<rparr>)"
  using read_raw_no_marker[of "world0 (''ERR'' @ [LF]) []" "CHR ''E''" "''RR'' @ [LF]" exact_runtime]
  by (simp add: world0_def is_ascii_def)

lemma global_strftime: "global_name ''strftime'' w = (Raise NameError, w)"
  by (simp add: global_name_def vna_names_def raise_def)

lemma write_raw_fails: "fst (write_raw py file w) \<noteq> Return u"
  by (auto simp: write_raw_def bind_def open_file_def global_strftime
      split: prod.splits outcome.splits option.splits)

text \<open>
  C9, as the code has it. Once \<open>read_raw\<close> has returned (a block or \<open>None\<close>),
  \<open>write_raw\<close> fails before it writes anything: when \<open>open\<close> raises, with the error of
  \<open>open\<close> and nothing done to the file; when the file opens, with \<open>NameError\<close> for the name
  \<open>strftime\<close>, and all it has done to the file is to open it, so that no header line and
  no sample row is written. In no world does \<open>write_raw\<close> return.
\<close>

theorem write_raw_name_error:
  assumes "read_raw py w = (Return raw, w1)"
  shows "write_raw py file w =
           (case file_open w1 file of
              None \<Rightarrow> (Raise NameError, w1\<lparr>trace := trace w1 @ [FileOpen file]\<rparr>)
            | Some e \<Rightarrow> (Raise e, w1)) \<and>
         (\<forall>v. fst (write_raw py file v) \<noteq> Return ())"
proof
  show "write_raw py file w =
           (case file_open w1 file of
              None \<Rightarrow> (Raise NameError, w1\<lparr>trace := trace w1 @ [FileOpen file]\<rparr>)
            | Some e \<Rightarrow> (Raise e, w1))"
    by (simp add: write_raw_def bind_def assms open_file_def global_strftime
        split: option.splits)
  show "\<forall>v. fst (write_raw py file v) \<noteq> Return ()"
    by (simp add: write_raw_fails)
qed

lemma read_raw_example:
  "read_raw exact_runtime
     ((world0 (''#216'' @ one_bytes @ two_bytes @ [LF]) [])\<lparr>file_open := fo\<rparr>) =
     (Return (Some [(1, 2)]), (world0 [] [])\<lparr>file_open := fo, trace := trace_query\<rparr>)"
  by (simp add: read_raw_def run_simps world0_def trace_query_def exact_runtime_def
      one_bytes_def two_bytes_def bits_value_def le_word_def)

text \<open>
  C9 as stated fails: in a world where the file cannot be opened (the folder for the
  curves does not exist, say), a call that has decoded a block raises the error of
  \<open>open\<close>, not \<open>NameError\<close>.
\<close>

theorem write_raw_name_error_counterexample:
  "read_raw exact_runtime
     ((world0 (''#216'' @ one_bytes @ two_bytes @ [LF]) [])\<lparr>file_open := (\<lambda>f. Some OSError)\<rparr>) =
     (Return (Some [(1, 2)]),
      (world0 [] [])\<lparr>file_open := (\<lambda>f. Some OSError), trace := trace_query\<rparr>) \<and>
   write_raw exact_runtime ''curves/0007mm.txt''
     ((world0 (''#216'' @ one_bytes @ two_bytes @ [LF]) [])\<lparr>file_open := (\<lambda>f. Some OSError)\<rparr>) =
     (Raise OSError, (world0 [] [])\<lparr>file_open := (\<lambda>f. Some OSError), trace := trace_query\<rparr>)"
  using read_raw_example[of "\<lambda>f. Some OSError"]
  by (simp add: write_raw_def bind_def open_file_def)

theorem write_raw_name_error_witness:
  "write_raw exact_runtime ''0007mm.txt'' (world0 (''#216'' @ one_bytes @ two_bytes @ [LF]) []) =
     (Raise NameError, (world0 [] [])\<lparr>trace := trace_query @ [FileOpen ''0007mm.txt'']\<rparr>) \<and>
   write_raw exact_runtime ''0007mm.txt''
     ((world0 (''#216'' @ one_bytes @ two_bytes @ [LF]) [])\<lparr>file_open := (\<lambda>f. Some OSError)\<rparr>) =
     (Raise OSError, (world0 [] [])\<lparr>file_open := (\<lambda>f. Some OSError), trace := trace_query\<rparr>)"
proof -
  have r: "read_raw exact_runtime (world0 (''#216'' @ one_bytes @ two_bytes @ [LF]) []) =
     (Return (Some [(1, 2)]), (world0 [] [])\<lparr>trace := trace_query\<rparr>)"
    using read_raw_example[of "\<lambda>f. None"] by (simp add: world0_def)
  show ?thesis
    using write_raw_name_error[OF r, of "''0007mm.txt''"]
      write_raw_name_error[OF read_raw_example[of "\<lambda>f. Some OSError"], of "''0007mm.txt''"]
    by (simp add: world0_def)
qed

lemma decode_not_ascii: "\<not> is_ascii c \<Longrightarrow> decode [c] w = (Raise UnicodeDecodeError, w)"
  by (simp add: decode_def raise_def is_ascii_def)

lemma read_raw_not_ascii:
  assumes "vna_rx w = c # rest" "\<not> is_ascii c"
  shows "fst (read_raw py w) = Raise UnicodeDecodeError"
  unfolding read_raw_def
  by (simp add: bind_def vna_cmd_def ser_write_def emit_def ser_read_def rx_of_def set_rx_def
      Let_def assms decode_not_ascii)

text \<open>
  C10, as the code has it. \<open>read_amp_phase\<close> raises \<open>TypeError\<close> whenever \<open>read_raw\<close>
  returns \<open>None\<close>. On a response whose first byte is not \<open>#\<close> that is what happens when
  the byte is an ASCII byte; when it is not, decoding it raises \<open>UnicodeDecodeError\<close>.
  When there is no response at all, the call waits forever, or raises \<open>TypeError\<close> on a
  port with a timeout. \<open>read_amp_phase\<close> returns a list exactly when \<open>read_raw\<close> returns
  one, and the list is the image of the pairs of \<open>read_raw\<close>; the response then starts
  with \<open>#\<close>, and nothing more is required of its framing.
\<close>

theorem read_amp_phase_cases:
  "(read_raw py w = (Return None, w') \<longrightarrow>
      read_amp_phase py polar w = (Raise TypeError, w')) \<and>
   (vna_rx w = c # rest \<and> c \<noteq> CHR ''#'' \<longrightarrow>
      fst (read_amp_phase py polar w) =
        (if is_ascii c then Raise TypeError else Raise UnicodeDecodeError)) \<and>
   (vna_rx w = [] \<longrightarrow>
      fst (read_amp_phase py polar w) = (if vna_timeout w then Raise TypeError else Hang)) \<and>
   ((read_amp_phase py polar w = (Return ps, w')) =
      (\<exists>pts. read_raw py w = (Return (Some pts), w') \<and> ps = map polar pts)) \<and>
   (read_amp_phase py polar w = (Return ps, w') \<longrightarrow> (\<exists>rest. vna_rx w = CHR ''#'' # rest))"
proof (intro conjI impI)
  assume "read_raw py w = (Return None, w')"
  then show "read_amp_phase py polar w = (Raise TypeError, w')"
    by (simp add: read_amp_phase_def bind_def raise_def)
next
  assume a: "vna_rx w = c # rest \<and> c \<noteq> CHR ''#''"
  show "fst (read_amp_phase py polar w) =
        (if is_ascii c then Raise TypeError else Raise UnicodeDecodeError)"
  proof (cases "is_ascii c")
    case True
    then have "read_raw py w = (Return None, w\<lparr>vna_rx := rest, trace := trace w @ trace_query\<rparr>)"
      using read_raw_no_marker_aux[of w c rest py] a by simp
    then show ?thesis
      using True by (simp add: read_amp_phase_def bind_def raise_def)
  next
    case False
    then have "fst (read_raw py w) = Raise UnicodeDecodeError"
      using read_raw_not_ascii[of w c rest py] a by simp
    then show ?thesis
      using False by (cases "read_raw py w") (simp add: read_amp_phase_def bind_def)
  qed
next
  assume "vna_rx w = []"
  then show "fst (read_amp_phase py polar w) =
      (if vna_timeout w then Raise TypeError else Hang)"
    by (simp add: read_amp_phase_def read_raw_def run_simps)
next
  show iff: "(read_amp_phase py polar w = (Return ps, w')) =
      (\<exists>pts. read_raw py w = (Return (Some pts), w') \<and> ps = map polar pts)"
    by (auto simp: read_amp_phase_def bind_def raise_def ret_def
        split: prod.splits outcome.splits option.splits)
  assume "read_amp_phase py polar w = (Return ps, w')"
  with iff obtain pts where r: "read_raw py w = (Return (Some pts), w')"
    by blast
  show "\<exists>rest. vna_rx w = CHR ''#'' # rest"
  proof (rule ccontr)
    assume n: "\<nexists>rest. vna_rx w = CHR ''#'' # rest"
    have "fst (read_raw py w) \<noteq> Return (Some pts)"
    proof (cases "vna_rx w")
      case Nil
      then show ?thesis
        by (simp add: read_raw_def run_simps)
    next
      case (Cons a as)
      with n have "a \<noteq> CHR ''#''" by simp
      with Cons show ?thesis
        by (simp add: read_raw_def run_simps)
    qed
    with r show False by simp
  qed
qed

text \<open>
  C10 as stated fails in both of its parts. The first byte \<open>0xFF\<close> is not \<open>#\<close>, and the
  error is \<open>UnicodeDecodeError\<close>, raised by \<open>read_raw\<close>, not \<open>TypeError\<close>. The response
  \<open>#2-5\<close> declares the length \<open>-5\<close> and carries no payload, and the response \<open>#224\<close>
  declares 24 bytes, which is no multiple of 16: neither is a well-framed block, and
  \<open>read_amp_phase\<close> returns a list for both, the empty list and the first components of
  the one pair that the first 16 bytes encode.
\<close>

theorem read_amp_phase_cases_counterexample:
  "read_amp_phase exact_runtime fst (world0 (CHR 0xFF # ''RR'' @ [LF]) []) =
     (Raise UnicodeDecodeError, (world0 (''RR'' @ [LF]) [])\<lparr>trace := trace_query\<rparr>) \<and>
   read_amp_phase exact_runtime fst (world0 (''#2-5'' @ [LF]) []) =
     (Return [], (world0 [] [])\<lparr>trace := trace_query\<rparr>) \<and>
   read_amp_phase exact_runtime fst
     (world0 (''#224'' @ one_bytes @ two_bytes @ one_bytes @ [LF]) []) =
     (Return [1], (world0 [] [])\<lparr>trace := trace_query\<rparr>)"
  by (simp add: read_amp_phase_def read_raw_def run_simps world0_def trace_query_def
      exact_runtime_def one_bytes_def two_bytes_def bits_value_def le_word_def)

theorem read_amp_phase_cases_witness:
  "read_amp_phase exact_runtime fst (world0 (''ERR'' @ [LF]) []) =
     (Raise TypeError, (world0 (''RR'' @ [LF]) [])\<lparr>trace := trace_query\<rparr>) \<and>
   fst (read_amp_phase exact_runtime fst (world0 (''ERR'' @ [LF]) [])) = Raise TypeError \<and>
   fst (read_amp_phase exact_runtime fst (world0 (CHR 0x80 # ''RR'' @ [LF]) [])) =
     Raise UnicodeDecodeError \<and>
   fst (read_amp_phase exact_runtime fst (world0 [] [])) = Hang \<and>
   read_amp_phase exact_runtime fst (world0 (''#216'' @ one_bytes @ two_bytes @ [LF]) []) =
     (Return [1], (world0 [] [])\<lparr>trace := trace_query\<rparr>)"
proof -
  have r: "read_raw exact_runtime (world0 (''ERR'' @ [LF]) []) =
     (Return None, (world0 (''RR'' @ [LF]) [])\<lparr>trace := trace_query\<rparr>)"
    by (simp add: read_raw_def run_simps world0_def trace_query_def)
  have b: "read_raw exact_runtime (world0 (''#216'' @ one_bytes @ two_bytes @ [LF]) []) =
     (Return (Some [(1, 2)]), (world0 [] [])\<lparr>trace := trace_query\<rparr>)"
    using read_raw_example[of "\<lambda>f. None"] by (simp add: world0_def)
  show ?thesis
    using read_amp_phase_cases[of exact_runtime "world0 (''ERR'' @ [LF]) []"
        "(world0 (''RR'' @ [LF]) [])\<lparr>trace := trace_query\<rparr>" fst "CHR ''E''" "''RR'' @ [LF]"]
      read_amp_phase_cases[of exact_runtime "world0 (CHR 0x80 # ''RR'' @ [LF]) []" _ fst
        "CHR 0x80" "''RR'' @ [LF]"]
      read_amp_phase_cases[of exact_runtime "world0 [] []" _ fst]
      read_amp_phase_cases[of exact_runtime "world0 (''#216'' @ one_bytes @ two_bytes @ [LF]) []"
        "(world0 [] [])\<lparr>trace := trace_query\<rparr>" fst _ _ "[1]"]
      r b
    by (simp add: world0_def is_ascii_def)
qed

section \<open>The averaging cycle\<close>

lemma readline_line:
  assumes "vna_rx v = a @ LF # tail" "LF \<notin> set a"
  shows "ser_readline Vna v = (Return (a @ [LF]), v\<lparr>vna_rx := tail\<rparr>)"
proof -
  have "takeWhile (\<lambda>c. c \<noteq> LF) (a @ LF # tail) = a"
    using assms(2) by (auto simp: takeWhile_tail)
  moreover have "dropWhile (\<lambda>c. c \<noteq> LF) (a @ LF # tail) = LF # tail"
    using assms(2) by (auto simp: dropWhile_append3)
  ultimately show ?thesis
    by (simp add: ser_readline_def rx_of_def set_rx_def Let_def assms(1))
qed

lemma vna_query_line:
  assumes "vna_rx v = a @ LF # tail" "LF \<notin> set a" "utf8_valid (map of_char (a @ [LF]))"
  shows "vna_query command v =
    (Return (a @ [LF]), v\<lparr>vna_rx := tail, trace := trace v @ [Tx Vna (command @ [LF])]\<rparr>)"
proof -
  have "decode (a @ [LF]) u = (Return (a @ [LF]), u)" for u :: "'a world"
    using assms(3) by (simp add: decode_def ret_def)
  moreover have "ser_readline Vna (v\<lparr>trace := trace v @ [Tx Vna (command @ [LF])]\<rparr>) =
      (Return (a @ [LF]), v\<lparr>trace := trace v @ [Tx Vna (command @ [LF])], vna_rx := tail\<rparr>)"
    using readline_line[of "v\<lparr>trace := trace v @ [Tx Vna (command @ [LF])]\<rparr>" a tail] assms
    by simp
  ultimately show ?thesis
    by (simp add: vna_query_def bind_def vna_cmd_def ser_write_def emit_def)
qed

text \<open>What \<open>measurecycles\<close> does to the world when it sleeps for \<open>d\<close> seconds.\<close>

definition trace_cycle :: "'f \<Rightarrow> 'f event list" where
  "trace_cycle d =
     [Tx Vna (''SENSE:AVERAGE:CLEAR'' @ [LF]), Tx Vna (''SENSE:AVERAGE:COUNT?'' @ [LF]),
      Tx Vna (''SENS:SWEEP:TIME?'' @ [LF]), Sleep d]"

lemma measurecycles_run:
  assumes rx: "vna_rx w = a @ LF # t @ LF # rest" "LF \<notin> set a" "LF \<notin> set t"
    and utf: "utf8_valid (map of_char (a @ [LF]))" "utf8_valid (map of_char (t @ [LF]))"
    and avg: "int_str py (a @ [LF]) = Some avg"
    and tm: "fl_parse py (t @ [LF]) = Some sweeptime"
    and k: "fl_of_int py (avg + 1) = Some k"
    and ok: "fl_sleep py (fl_mul py sweeptime k) = None"
  shows "measurecycles py w =
    (Return (), w\<lparr>vna_rx := rest, trace := trace w @ trace_cycle (fl_mul py sweeptime k)\<rparr>)"
proof -
  define w1 where "w1 = w\<lparr>trace := trace w @ [Tx Vna (''SENSE:AVERAGE:CLEAR'' @ [LF])]\<rparr>"
  define w2 where "w2 = w1\<lparr>vna_rx := t @ LF # rest,
    trace := trace w1 @ [Tx Vna (''SENSE:AVERAGE:COUNT?'' @ [LF])]\<rparr>"
  define w3 where "w3 = w2\<lparr>vna_rx := rest,
    trace := trace w2 @ [Tx Vna (''SENS:SWEEP:TIME?'' @ [LF])]\<rparr>"
  have s1: "reset_avg w = (Return (), w1)"
    by (simp add: reset_avg_def vna_cmd_def ser_write_def emit_def w1_def)
  have q2: "vna_query ''SENSE:AVERAGE:COUNT?'' w1 = (Return (a @ [LF]), w2)"
    using vna_query_line[of w1 a "t @ LF # rest" "''SENSE:AVERAGE:COUNT?''"] rx utf
    by (simp add: w1_def w2_def)
  have s2: "get_avg py w1 = (Return avg, w2)"
    by (simp add: get_avg_def bind_def q2 py_int_def avg orraise_def ret_def)
  have q3: "vna_query ''SENS:SWEEP:TIME?'' w2 = (Return (t @ [LF]), w3)"
    using vna_query_line[of w2 t rest "''SENS:SWEEP:TIME?''"] rx utf
    by (simp add: w2_def w3_def)
  have s3: "get_sweeptime py w2 = (Return sweeptime, w3)"
    by (simp add: get_sweeptime_def bind_def q3 py_float_def tm orraise_def ret_def)
  show ?thesis
    by (simp add: measurecycles_def bind_def s1 s2 s3 k orraise_def ret_def sleep_def ok emit_def)
      (simp add: w3_def w2_def w1_def trace_cycle_def)
qed

text \<open>
  C6. When the analyser answers the two queries with the lines \<open>a\<close> and \<open>t\<close>, which
  decode and of which \<open>int\<close> makes the average count \<open>avg\<close> and \<open>float\<close> the sweep time
  \<open>sweeptime\<close>, \<open>measurecycles\<close> first sends the command that clears the running average,
  then the two queries, and then sleeps once, for \<open>sweeptime * (avg + 1)\<close> seconds, provided
  that \<open>avg + 1\<close> converts to a float and \<open>sleep\<close> accepts the duration. With the answers
  \<open>3\<close> and \<open>2.0\<close> the duration is 8.
\<close>

theorem measurecycles_wait:
  "(vna_rx w = a @ LF # t @ LF # rest \<and> LF \<notin> set a \<and> LF \<notin> set t \<and>
    utf8_valid (map of_char (a @ [LF])) \<and> utf8_valid (map of_char (t @ [LF])) \<and>
    int_str py (a @ [LF]) = Some avg \<and> fl_parse py (t @ [LF]) = Some sweeptime \<and>
    fl_of_int py (avg + 1) = Some k \<and> fl_sleep py (fl_mul py sweeptime k) = None \<longrightarrow>
    measurecycles py w =
      (Return (), w\<lparr>vna_rx := rest, trace := trace w @ trace_cycle (fl_mul py sweeptime k)\<rparr>)) \<and>
   (small_int_exact py \<and> vna_rx w = ''3'' @ LF # ''2.0'' @ LF # rest \<and>
    fl_parse py (''2.0'' @ [LF]) = Some (fl_int py 2) \<and> fl_sleep py (fl_int py 8) = None \<longrightarrow>
    measurecycles py w =
      (Return (), w\<lparr>vna_rx := rest, trace := trace w @ trace_cycle (fl_int py 8)\<rparr>))"
proof (intro conjI impI)
  assume "vna_rx w = a @ LF # t @ LF # rest \<and> LF \<notin> set a \<and> LF \<notin> set t \<and>
    utf8_valid (map of_char (a @ [LF])) \<and> utf8_valid (map of_char (t @ [LF])) \<and>
    int_str py (a @ [LF]) = Some avg \<and> fl_parse py (t @ [LF]) = Some sweeptime \<and>
    fl_of_int py (avg + 1) = Some k \<and> fl_sleep py (fl_mul py sweeptime k) = None"
  then show "measurecycles py w =
      (Return (), w\<lparr>vna_rx := rest, trace := trace w @ trace_cycle (fl_mul py sweeptime k)\<rparr>)"
    using measurecycles_run[of w a t rest py avg sweeptime k] by blast
next
  assume h: "small_int_exact py \<and> vna_rx w = ''3'' @ LF # ''2.0'' @ LF # rest \<and>
    fl_parse py (''2.0'' @ [LF]) = Some (fl_int py 2) \<and> fl_sleep py (fl_int py 8) = None"
  then have ex: "small_int_exact py" by simp
  have four: "fl_of_int py 4 = Some (fl_int py 4)"
    using ex by (auto simp: small_int_exact_def small_def fl_int_def)
  have mul: "fl_mul py (fl_int py 2) (fl_int py 4) = fl_int py 8"
  proof -
    have "small 2 \<and> small 4 \<and> small (2 * 4) \<and> ((2 :: int) * 4 \<noteq> 0 \<or> (0 :: int) \<le> 2 \<and> (0 :: int) \<le> 4)"
      by (simp add: small_def)
    then have "fl_mul py (fl_int py 2) (fl_int py 4) = fl_int py (2 * 4)"
      using ex unfolding small_int_exact_def by blast
    then show ?thesis by simp
  qed
  have three: "int_str py (''3'' @ [LF]) = Some 3"
    by (simp add: int_str_def LF_def is_ascii_def int_ascii_def strip_def is_cspace_def
        dec_lit_def is_digit_def digit_val_def)
  have "measurecycles py w =
      (Return (), w\<lparr>vna_rx := rest,
        trace := trace w @ trace_cycle (fl_mul py (fl_int py 2) (fl_int py 4))\<rparr>)"
    by (rule measurecycles_run[where a = "''3''" and t = "''2.0''" and avg = 3])
      (use h four mul three in \<open>simp_all add: LF_def\<close>)
  then show "measurecycles py w =
      (Return (), w\<lparr>vna_rx := rest, trace := trace w @ trace_cycle (fl_int py 8)\<rparr>)"
    by (simp add: mul)
qed

lemma exact_runtime_exact: "small_int_exact exact_runtime"
proof -
  have d: "of_int a / of_int b = (of_int (a div b) :: rat)" if "b dvd a" "b \<noteq> 0" for a b :: int
    using that by (metis dvd_div_mult_self nonzero_eq_divide_eq of_int_0_eq_iff of_int_mult)
  have e: "(- (1 / 1000000) < (of_int a :: rat)) = (0 \<le> a)" for a :: int
  proof (cases "0 \<le> a")
    case True
    then have "(0 :: rat) \<le> of_int a" by simp
    then show ?thesis using True by linarith
  next
    case False
    then have "a \<le> - 1" by simp
    then have "(of_int a :: rat) \<le> - 1" by (metis of_int_le_iff of_int_minus of_int_1)
    then show ?thesis using False by linarith
  qed
  show ?thesis
    by (simp add: small_int_exact_def exact_runtime_def fl_int_def d e)
qed

text \<open>
  An answer that ends with the separator \<open>0x1F\<close> before the line feed is not a number for
  \<open>int\<close>: \<open>measurecycles\<close> raises \<open>ValueError\<close> after the first query and does not sleep.
\<close>

lemma measurecycles_separator:
  "measurecycles exact_runtime (world0 (''3'' @ [CHR 0x1F, LF] @ ''2.0'' @ [LF]) []) =
     (Raise ValueError, (world0 (''2.0'' @ [LF]) [])\<lparr>trace :=
        [Tx Vna (''SENSE:AVERAGE:CLEAR'' @ [LF]), Tx Vna (''SENSE:AVERAGE:COUNT?'' @ [LF])]\<rparr>)"
  by (simp add: measurecycles_def reset_avg_def get_avg_def run_simps world0_def
      exact_runtime_def)

theorem measurecycles_wait_witness:
  "measurecycles exact_runtime (world0 (''3'' @ LF # ''2.0'' @ [LF]) []) =
     (Return (), (world0 [] [])\<lparr>trace := trace_cycle 8\<rparr>) \<and>
   measurecycles exact_runtime (world0 (''1'' @ LF # ''0.5'' @ [LF]) []) =
     (Return (), (world0 [] [])\<lparr>trace := trace_cycle 1\<rparr>)"
proof -
  have p: "fl_parse exact_runtime (''2.0'' @ [LF]) = Some (fl_int exact_runtime 2)"
    by (simp add: exact_runtime_def fl_int_def decimal_def strip_def is_cspace_def
        LF_def int_ascii_def dec_lit_def is_digit_def digit_val_def dec_value_def)
  have q: "fl_parse exact_runtime (''0.5'' @ [LF]) = Some (1 / 2)"
    "int_str exact_runtime (''1'' @ [LF]) = Some 1"
    by (simp_all add: exact_runtime_def decimal_def strip_def is_cspace_def int_str_def
        is_ascii_def LF_def int_ascii_def dec_lit_def is_digit_def digit_val_def dec_value_def)
  have e: "fl_int exact_runtime 8 = 8" "fl_sleep exact_runtime (fl_int exact_runtime 8) = None"
    "fl_of_int exact_runtime 2 = Some 2" "fl_mul exact_runtime (1 / 2) 2 = 1"
    "fl_sleep exact_runtime 1 = None"
    by (simp_all add: exact_runtime_def fl_int_def)
  show ?thesis
    using measurecycles_wait[of "world0 (''3'' @ LF # ''2.0'' @ [LF]) []" "[]" "[]" "[]"
        exact_runtime 0 0 0]
      measurecycles_wait[of "world0 (''1'' @ LF # ''0.5'' @ [LF]) []" "''1''" "''0.5''" "[]"
        exact_runtime 1 "1 / 2" 2]
      exact_runtime_exact p q e
    by (simp add: world0_def LF_def)
qed

section \<open>The sweep over the positions\<close>

lemma sweep_cons:
  assumes "fl_less py (fl_neg py (fl_const py ''1E-6'')) (fl_sub py hi pos)"
    and "\<And>w'. sweep py body hi st (fl_add py pos st) w' = Some (for_each body xs w')"
  shows "sweep py body hi st pos w = Some (for_each body (pos # xs) w)"
  by (subst sweep.simps) (simp add: assms bind_def split: prod.splits outcome.splits)

lemma sweep_nil:
  assumes "\<not> fl_less py (fl_neg py (fl_const py ''1E-6'')) (fl_sub py hi pos)"
  shows "sweep py body hi st pos w = Some (for_each body [] w)"
  by (subst sweep.simps) (simp add: assms ret_def)

lemma small_numeral [simp]:
  "small 0" "small 2" "small 4" "small 5" "small 6" "small 8" "small 10" "small 12" "small (- 2)"
  by (simp_all add: small_def)

lemma exact_of_int:
  "small_int_exact py \<Longrightarrow> small a \<Longrightarrow> fl_of_int py a = Some (fl_int py a)"
  by (auto simp: small_int_exact_def fl_int_def)

lemma exact_add:
  "small_int_exact py \<Longrightarrow> small a \<Longrightarrow> small b \<Longrightarrow> small (a + b) \<Longrightarrow>
   fl_add py (fl_int py a) (fl_int py b) = fl_int py (a + b)"
  by (simp add: small_int_exact_def)

lemma exact_go:
  "small_int_exact py \<Longrightarrow> small a \<Longrightarrow> small b \<Longrightarrow> small (a - b) \<Longrightarrow>
   fl_less py (fl_neg py (fl_const py ''1E-6'')) (fl_sub py (fl_int py a) (fl_int py b)) =
     (b \<le> a)"
  by (simp add: small_int_exact_def)

lemma exact_div:
  "small_int_exact py \<Longrightarrow> small a \<Longrightarrow> small b \<Longrightarrow> b \<noteq> 0 \<Longrightarrow> b dvd a \<Longrightarrow> a \<noteq> 0 \<or> 0 < b \<Longrightarrow>
   fl_div py (fl_int py a) (fl_int py b) = Some (fl_int py (a div b))"
  unfolding small_int_exact_def by blast

lemma exact_sub:
  "small_int_exact py \<Longrightarrow> small a \<Longrightarrow> small b \<Longrightarrow> small (a - b) \<Longrightarrow>
   fl_sub py (fl_int py a) (fl_int py b) = fl_int py (a - b)"
  by (simp add: small_int_exact_def)

text \<open>
  C4. With the limits 0 and 10 and \<open>Steps = 5\<close> the step size is 2, and the loop, which goes
  on while \<open>stop - pos > -1E-6\<close> and adds the step size to \<open>pos\<close> after each pass, runs its
  body at the positions 0, 2, 4, 6, 8, 10, in this order and once each, and then ends.
  Binary64 arithmetic enters through \<open>small_int_exact\<close> only.
\<close>

theorem sweep_six_points:
  assumes ex: "small_int_exact py"
    and cfg: "settings ''StepSize'' = None" "settings ''Steps'' = Some ''5''"
  shows "read_stepsize py settings (fl_int py 0) (fl_int py 10) w = (Return (fl_int py 2), w) \<and>
         sweep py body (fl_int py 10) (fl_int py 2) (fl_int py 0) w =
           Some (for_each body (map (fl_int py) [0, 2, 4, 6, 8, 10]) w)"
proof
  have five: "py_int py ''5'' v = (Return 5, v)" for v :: "'a world"
    by (simp add: py_int_def int_str_def orraise_def ret_def is_ascii_def int_ascii_def
        strip_def is_cspace_def dec_lit_def is_digit_def digit_val_def)
  show "read_stepsize py settings (fl_int py 0) (fl_int py 10) w = (Return (fl_int py 2), w)"
    using exact_of_int[OF ex, of 5] exact_sub[OF ex, of 10 0] exact_div[OF ex, of 10 5]
    by (simp add: read_stepsize_def cfg item_def orraise_def bind_def ret_def five)
next
  note go = exact_go[OF ex] and add = exact_add[OF ex]
  have s12: "sweep py body (fl_int py 10) (fl_int py 2) (fl_int py 12) v =
      Some (for_each body [] v)" for v
    by (rule sweep_nil) (simp add: go)
  have s10: "sweep py body (fl_int py 10) (fl_int py 2) (fl_int py 10) v =
      Some (for_each body [fl_int py 10] v)" for v
    by (rule sweep_cons) (simp_all add: go add s12)
  have s8: "sweep py body (fl_int py 10) (fl_int py 2) (fl_int py 8) v =
      Some (for_each body [fl_int py 8, fl_int py 10] v)" for v
    by (rule sweep_cons) (simp_all add: go add s10)
  have s6: "sweep py body (fl_int py 10) (fl_int py 2) (fl_int py 6) v =
      Some (for_each body [fl_int py 6, fl_int py 8, fl_int py 10] v)" for v
    by (rule sweep_cons) (simp_all add: go add s8)
  have s4: "sweep py body (fl_int py 10) (fl_int py 2) (fl_int py 4) v =
      Some (for_each body [fl_int py 4, fl_int py 6, fl_int py 8, fl_int py 10] v)" for v
    by (rule sweep_cons) (simp_all add: go add s6)
  have s2: "sweep py body (fl_int py 10) (fl_int py 2) (fl_int py 2) v =
      Some (for_each body [fl_int py 2, fl_int py 4, fl_int py 6, fl_int py 8, fl_int py 10] v)"
    for v
    by (rule sweep_cons) (simp_all add: go add s4)
  have "sweep py body (fl_int py 10) (fl_int py 2) (fl_int py 0) w =
      Some (for_each body
        [fl_int py 0, fl_int py 2, fl_int py 4, fl_int py 6, fl_int py 8, fl_int py 10] w)"
    by (rule sweep_cons) (simp_all add: go add s2)
  then show "sweep py body (fl_int py 10) (fl_int py 2) (fl_int py 0) w =
           Some (for_each body (map (fl_int py) [0, 2, 4, 6, 8, 10]) w)"
    by simp
qed

lemma digit_chars:
  "digit_char 0 = CHR ''0''" "digit_char 1 = CHR ''1''" "digit_char 2 = CHR ''2''"
  "digit_char 3 = CHR ''3''" "digit_char 4 = CHR ''4''" "digit_char 5 = CHR ''5''"
  "digit_char 6 = CHR ''6''" "digit_char 7 = CHR ''7''" "digit_char 8 = CHR ''8''"
  "digit_char 9 = CHR ''9''"
  by (rule digit_char_eq, simp)+

theorem sweep_six_points_witness:
  "read_stepsize exact_runtime (\<lambda>k. if k = ''Steps'' then Some ''5'' else None) 0 10
     (world0 [] []) = (Return 2, world0 [] []) \<and>
   sweep exact_runtime (\<lambda>pos. emit (Print (fl_str exact_runtime pos))) 10 2 0 (world0 [] []) =
     Some (Return (), (world0 [] [])\<lparr>trace :=
       [Print ''0.0'', Print ''2.0'', Print ''4.0'', Print ''6.0'', Print ''8.0'',
        Print ''10.0'']\<rparr>)"
proof -
  have i: "fl_int exact_runtime n = of_int n" for n
    by (simp add: fl_int_def exact_runtime_def)
  have s: "fl_str exact_runtime 0 = ''0.0''" "fl_str exact_runtime 2 = ''2.0''"
    "fl_str exact_runtime 4 = ''4.0''" "fl_str exact_runtime 6 = ''6.0''"
    "fl_str exact_runtime 8 = ''8.0''" "fl_str exact_runtime 10 = ''10.0''"
    by (simp_all add: exact_runtime_def show_int_def digit_chars digit_char_one)
  show ?thesis
    using sweep_six_points[OF exact_runtime_exact,
        of "\<lambda>k. if k = ''Steps'' then Some ''5'' else None" "world0 [] []"
          "\<lambda>pos. emit (Print (fl_str exact_runtime pos))"]
    by (simp add: i s bind_def emit_def ret_def world0_def)
qed

section \<open>One point of the sweep\<close>

text \<open>A configuration, a measurement object and the variables of \<open>measure\<close> for concrete runs.\<close>

definition cfg0 :: config where
  "cfg0 = map_of
     [(''MOTOR'', map_of
        [(''Port'', ''/dev/ttyUSB0''), (''Baudrate'', ''9600''), (''SerialTimeout'', ''1''),
         (''Name'', ''D''), (''Config'', ''stoerkoerper.conf''), (''Scaling'', ''1'')]),
      (''VNA'', map_of
        [(''Port'', ''/dev/ttyUSB1''), (''Baudrate'', ''57600''), (''Points'', ''201''),
         (''Power'', ''0''), (''Average'', ''3'')]),
      (''MEASUREMENT'', map_of
        [(''Start'', ''0''), (''Stop'', ''10''), (''StepSize'', ''2''), (''Steps'', ''5''),
         (''Delay'', ''1''), (''Infinite'', ''no''), (''CaptureResonanceCurve'', ''no''),
         (''ResonanceCurveFolder'', ''curves/''), (''Checkmode'', ''yes''),
         (''ReferencePoint'', ''5'')])]"

definition app0 :: "rat app" where
  "app0 = \<lparr>config = cfg0, config_filename = ''m.ini'', out_filename = ''out.txt'',
           motor = \<lparr>motor_name = ''D'', motor_scaling = 1\<rparr>\<rparr>"

definition plan0 :: "rat plan" where
  "plan0 = \<lparr>start = 0, stop = 10, infinite_mode = Some False, rc_mode = Some False,
            rc_folder = ''curves/'', checkmode = Some True, cm_reference = 5, stepsize = 2\<rparr>"

text \<open>
  What the devices send while one frequency is taken: the motor controller acknowledges
  the move and answers the query \<open>MV\<close> with 0; the analyser reports 3 averages, a sweep
  time of 2.0 and the marker at frequency \<open>f\<close> with the value 1.
\<close>

definition CRLF :: bytes where
  "CRLF = [CHR 0x0D, CHR 0x0A]"

definition mot_answers :: bytes where
  "mot_answers = CRLF @ CRLF @ ''0'' @ CRLF"

definition vna_answers :: "string \<Rightarrow> bytes" where
  "vna_answers f = ''3'' @ [LF] @ ''2.0'' @ [LF] @ f @ [LF] @ ''1'' @ [LF]"

text \<open>What \<open>get_freq_at\<close> does to the world for the motor position \<open>P\<close>.\<close>

definition trace_freq :: "string \<Rightarrow> rat event list" where
  "trace_freq P =
     [Tx Mot (''DMA '' @ P @ [LF]), Tx Mot (''DPR MV'' @ [LF]), Sleep 1] @ trace_cycle 8 @
     [Tx Vna (''CALC:MARK1:MIN'' @ [LF]), Tx Vna (''CALC:MARK1:SEARCH'' @ [LF]),
      Tx Vna (''CALC:MARK1:X?'' @ [LF]), Tx Vna (''CALC:MARK1:Y?'' @ [LF])]"



lemma write_raw_not_Return: "write_raw py file w \<noteq> (Return u, w')"
  by (metis write_raw_fails fst_conv)

lemma capture_Return:
  "capture py S pos suffix w = (Return u, w') \<Longrightarrow> w' = w \<and> \<not> truthy (rc_mode S)"
  by (auto simp: capture_def bind_def ret_def trunc_def raise_def write_raw_not_Return
      split: if_splits sum.splits prod.splits outcome.splits)

text \<open>
  C5. In checkmode the body of the loop completes for a position \<open>pos\<close> exactly when the
  capture of raw curves is off and two measurements succeed: the frequency at the
  reference position, taken first, in the world as the message \<open>Measuring\<close> left it, and
  the frequency at \<open>pos\<close>, taken afterwards, in the world the first measurement left. The
  body then ends by writing the row made of \<open>pos\<close>, the frequency at \<open>pos\<close>, the reference
  frequency and their difference, separated by tabs, and by flushing the file.
\<close>

theorem point_checkmode:
  fixes py :: "'f runtime"
  assumes cm: "truthy (checkmode S)"
  shows "(point py self S outf appendix ext pos w = (Return (), w')) =
     (\<not> truthy (rc_mode S) \<and>
      (\<exists>f_ref w1 freq w2.
        get_freq_at py self (cm_reference S)
          (w\<lparr>trace := trace w @ [Print (''Measuring: d = '' @ fl_str py pos @ '' mm'')]\<rparr>) =
          (Return f_ref, w1) \<and>
        get_freq_at py self pos w1 = (Return freq, w2) \<and>
        w' = w2\<lparr>trace := trace w2 @
          [FileWrite outf (fl_fmt3 py pos @ [CHR 0x09] @ fl_str py freq @ [CHR 0x09] @
             fl_str py f_ref @ [CHR 0x09] @ fl_str py (fl_sub py freq f_ref) @ [LF]),
           FileFlush outf]\<rparr>))"
proof
  assume run: "point py self S outf appendix ext pos w = (Return (), w')"
  define w0 where
    "w0 = w\<lparr>trace := trace w @ [Print (''Measuring: d = '' @ fl_str py pos @ '' mm'')]\<rparr>"
  define first where "first =
    bind (get_freq_at py self (cm_reference S)) (\<lambda>f_ref.
    bind (capture py S pos (''mm_ref'' @ appendix @ ext)) (\<lambda>_. ret (Some f_ref)))"
  define row :: "'f option \<Rightarrow> 'f \<Rightarrow> (unit, 'f) prog" where "row ref freq =
    (case ref of
       Some f_ref \<Rightarrow>
         fprint outf (fl_fmt3 py pos @ [CHR 0x09] @ fl_str py freq @ [CHR 0x09] @
           fl_str py f_ref @ [CHR 0x09] @ fl_str py (fl_sub py freq f_ref))
     | None \<Rightarrow> fprint outf (fl_fmt3 py pos @ [CHR 0x09] @ fl_str py freq))" for ref freq
  have "point py self S outf appendix ext pos w =
      bind first (\<lambda>ref.
      bind (get_freq_at py self pos) (\<lambda>freq.
      bind (capture py S pos (''mm'' @ appendix @ ext)) (\<lambda>_.
      bind (row ref freq) (\<lambda>_. emit (FileFlush outf))))) w0"
    (is "_ = ?rest")
    by (simp add: point_def bind_def emit_def w0_def first_def row_def cm)
  with run have "?rest = (Return (), w')"
    by simp
  then obtain ref wr freq w2 wb wc where
    a: "first w0 = (Return ref, wr)" and
    c: "get_freq_at py self pos wr = (Return freq, w2)" and
    d: "capture py S pos (''mm'' @ appendix @ ext) w2 = (Return (), wb)" and
    e: "row ref freq wb = (Return (), wc)" and
    f: "emit (FileFlush outf) wc = (Return (), w')"
    unfolding bind_Return_iff by auto
  from a obtain f_ref w1 wa where
    a1: "get_freq_at py self (cm_reference S) w0 = (Return f_ref, w1)" and
    a2: "capture py S pos (''mm_ref'' @ appendix @ ext) w1 = (Return (), wa)" and
    a3: "ref = Some f_ref" "wr = wa"
    unfolding first_def bind_Return_iff by (auto simp: ret_def)
  have "wa = w1" "wb = w2" "\<not> truthy (rc_mode S)"
    using capture_Return[OF a2] capture_Return[OF d] by simp_all
  with a1 a3 c e f show "\<not> truthy (rc_mode S) \<and>
      (\<exists>f_ref w1 freq w2.
        get_freq_at py self (cm_reference S)
          (w\<lparr>trace := trace w @ [Print (''Measuring: d = '' @ fl_str py pos @ '' mm'')]\<rparr>) =
          (Return f_ref, w1) \<and>
        get_freq_at py self pos w1 = (Return freq, w2) \<and>
        w' = w2\<lparr>trace := trace w2 @
          [FileWrite outf (fl_fmt3 py pos @ [CHR 0x09] @ fl_str py freq @ [CHR 0x09] @
             fl_str py f_ref @ [CHR 0x09] @ fl_str py (fl_sub py freq f_ref) @ [LF]),
           FileFlush outf]\<rparr>)"
    unfolding w0_def[symmetric]
    by (auto simp: row_def fprint_def emit_def)
next
  assume "\<not> truthy (rc_mode S) \<and>
      (\<exists>f_ref w1 freq w2.
        get_freq_at py self (cm_reference S)
          (w\<lparr>trace := trace w @ [Print (''Measuring: d = '' @ fl_str py pos @ '' mm'')]\<rparr>) =
          (Return f_ref, w1) \<and>
        get_freq_at py self pos w1 = (Return freq, w2) \<and>
        w' = w2\<lparr>trace := trace w2 @
          [FileWrite outf (fl_fmt3 py pos @ [CHR 0x09] @ fl_str py freq @ [CHR 0x09] @
             fl_str py f_ref @ [CHR 0x09] @ fl_str py (fl_sub py freq f_ref) @ [LF]),
           FileFlush outf]\<rparr>)"
  then obtain f_ref w1 freq w2 where
    rc: "\<not> truthy (rc_mode S)" and
    a: "get_freq_at py self (cm_reference S)
          (w\<lparr>trace := trace w @ [Print (''Measuring: d = '' @ fl_str py pos @ '' mm'')]\<rparr>) =
          (Return f_ref, w1)" and
    b: "get_freq_at py self pos w1 = (Return freq, w2)" and
    c: "w' = w2\<lparr>trace := trace w2 @
          [FileWrite outf (fl_fmt3 py pos @ [CHR 0x09] @ fl_str py freq @ [CHR 0x09] @
             fl_str py f_ref @ [CHR 0x09] @ fl_str py (fl_sub py freq f_ref) @ [LF]),
           FileFlush outf]\<rparr>"
    by blast
  show "point py self S outf appendix ext pos w = (Return (), w')"
    using a b
    by (simp add: point_def bind_def emit_def cm rc capture_def ret_def fprint_def c)
qed


lemmas app_simps =
  get_freq_at_def move_to_def is_moving_def motor_get_def measurecycles_def reset_avg_def
  get_avg_def get_sweeptime_def search_min_def get_pos_def marker_cmd_def sleep_def trunc_def
  capture_def truthy_def item_def get_section_def fprint_def py_rstrip_def show_int_def
  digit_chars digit_char_one decimal_def dec_value_def

lemma get_freq_at_example:
  "get_freq_at exact_runtime app0 5
     ((world0 (vna_answers ''100'' @ v) (mot_answers @ m))\<lparr>trace := es\<rparr>) =
     (Return 100, (world0 v m)\<lparr>trace := es @ trace_freq ''5''\<rparr>)"
  by (simp add: app_simps run_simps app0_def cfg0_def exact_runtime_def world0_def
      vna_answers_def mot_answers_def CRLF_def trace_freq_def trace_cycle_def)


lemma get_freq_at_example2:
  "get_freq_at exact_runtime app0 7
     ((world0 (vna_answers ''103'' @ v) (mot_answers @ m))\<lparr>trace := es\<rparr>) =
     (Return 103, (world0 v m)\<lparr>trace := es @ trace_freq ''7''\<rparr>)"
  by (simp add: app_simps run_simps app0_def cfg0_def exact_runtime_def world0_def
      vna_answers_def mot_answers_def CRLF_def trace_freq_def trace_cycle_def)

definition row0 :: "rat event list" where
  "row0 =
     [FileWrite ''out.txt''
        (''7.000'' @ [CHR 0x09] @ ''103.0'' @ [CHR 0x09] @ ''100.0'' @ [CHR 0x09] @ ''3.0'' @ [LF]),
      FileFlush ''out.txt'']"

theorem point_checkmode_witness:
  "point exact_runtime app0 plan0 ''out.txt'' [] ''.txt'' 7
     (world0 (vna_answers ''100'' @ vna_answers ''103'') (mot_answers @ mot_answers)) =
     (Return (), (world0 [] [])\<lparr>trace :=
        [Print ''Measuring: d = 7.0 mm''] @ trace_freq ''5'' @ trace_freq ''7'' @ row0\<rparr>)"
proof -
  let ?w = "world0 (vna_answers ''100'' @ vna_answers ''103'') (mot_answers @ mot_answers)"
  let ?w1 = "(world0 (vna_answers ''103'') mot_answers)
      \<lparr>trace := [Print ''Measuring: d = 7.0 mm''] @ trace_freq ''5''\<rparr>"
  let ?w2 = "(world0 [] [])
      \<lparr>trace := ([Print ''Measuring: d = 7.0 mm''] @ trace_freq ''5'') @ trace_freq ''7''\<rparr>"
  have f: "fl_str exact_runtime 7 = ''7.0''" "fl_fmt3 exact_runtime 7 = ''7.000''"
    "fl_str exact_runtime 103 = ''103.0''" "fl_str exact_runtime 100 = ''100.0''"
    "fl_str exact_runtime (fl_sub exact_runtime 103 100) = ''3.0''"
    by (simp_all add: exact_runtime_def show_int_def digit_chars digit_char_one)
  have a: "get_freq_at exact_runtime app0 (cm_reference plan0)
      (?w\<lparr>trace := trace ?w @ [Print (''Measuring: d = '' @ fl_str exact_runtime 7 @ '' mm'')]\<rparr>) =
      (Return 100, ?w1)"
    using get_freq_at_example[where v = "vna_answers ''103''" and m = mot_answers
        and es = "[Print ''Measuring: d = 7.0 mm'']"]
    by (simp add: plan0_def f world0_def)
  have b: "get_freq_at exact_runtime app0 7 ?w1 = (Return 103, ?w2)"
    using get_freq_at_example2[where v = "[]" and m = "[]"
        and es = "[Print ''Measuring: d = 7.0 mm''] @ trace_freq ''5''"]
    by simp
  have "point exact_runtime app0 plan0 ''out.txt'' [] ''.txt'' 7 ?w =
      (Return (), ?w2\<lparr>trace := trace ?w2 @
          [FileWrite ''out.txt'' (fl_fmt3 exact_runtime 7 @ [CHR 0x09] @
             fl_str exact_runtime 103 @ [CHR 0x09] @ fl_str exact_runtime 100 @ [CHR 0x09] @
             fl_str exact_runtime (fl_sub exact_runtime 103 100) @ [LF]),
           FileFlush ''out.txt'']\<rparr>)"
    by (rule iffD2[OF point_checkmode])
      (use a b in \<open>auto simp: plan0_def truthy_def\<close>)
  then show ?thesis
    by (simp add: f row0_def world0_def)
qed

section \<open>The configuration error\<close>

text \<open>The values that \<open>getboolean\<close> accepts for the option \<open>k\<close>: none, or one of the eight words.\<close>

definition boolean_ok :: "options \<Rightarrow> string \<Rightarrow> bool" where
  "boolean_ok settings k =
     (case settings k of
        None \<Rightarrow> True
      | Some v \<Rightarrow>
          map lower v \<in> set [''1'', ''yes'', ''true'', ''on'', ''0'', ''no'', ''false'', ''off''])"

text \<open>A program that never takes an event out of the trace.\<close>

definition keeps :: "'f event \<Rightarrow> ('a, 'f) prog \<Rightarrow> bool" where
  "keeps e m \<longleftrightarrow> (\<forall>w r w'. m w = (r, w') \<longrightarrow> e \<in> set (trace w) \<longrightarrow> e \<in> set (trace w'))"

lemma keeps_ret: "keeps e (ret x)"
  by (simp add: keeps_def ret_def)

lemma keeps_raise: "keeps e (raise x)"
  by (simp add: keeps_def raise_def)

lemma keeps_emit: "keeps e (emit x)"
  by (auto simp: keeps_def emit_def)

lemma keeps_bind: "keeps e m \<Longrightarrow> (\<And>x. keeps e (f x)) \<Longrightarrow> keeps e (bind m f)"
  unfolding keeps_def bind_def
  by (auto split: prod.splits outcome.splits)

lemma keeps_orraise: "keeps e (orraise x v)"
  by (cases v) (simp_all add: orraise_def keeps_ret keeps_raise)

lemma keeps_readline: "keeps e (ser_readline d)"
  by (cases d) (auto simp: keeps_def ser_readline_def Let_def set_rx_def split: if_splits)

lemma keeps_decode: "keeps e (decode bs)"
  by (simp add: decode_def keeps_ret keeps_raise)

lemma keeps_sleep: "keeps e (sleep py x)"
  by (cases "fl_sleep py x") (simp_all add: sleep_def keeps_raise keeps_emit)

lemmas keeps_intros =
  keeps_bind keeps_ret keeps_raise keeps_emit keeps_orraise keeps_readline keeps_decode
  keeps_sleep

lemma keeps_vna_cmd: "keeps e (vna_cmd c)"
  by (simp add: vna_cmd_def ser_write_def keeps_emit)

lemma keeps_vna_query: "keeps e (vna_query c)"
  unfolding vna_query_def by (intro keeps_intros keeps_vna_cmd)

lemma keeps_py_int: "keeps e (py_int py s)"
  by (simp add: py_int_def keeps_orraise)

lemma keeps_py_float: "keeps e (py_float py s)"
  by (simp add: py_float_def keeps_orraise)

lemma keeps_item: "keeps e (item settings k)"
  by (simp add: item_def keeps_orraise)

lemma keeps_measurecycles: "keeps e (measurecycles py)"
  unfolding measurecycles_def reset_avg_def get_avg_def get_sweeptime_def
  by (intro keeps_intros keeps_vna_cmd keeps_vna_query keeps_py_int keeps_py_float)

lemma keeps_set_avg: "keeps e (set_avg n)"
  unfolding set_avg_def by (auto intro!: keeps_intros keeps_vna_cmd)

text \<open>What \<open>init_vna\<close> does once the port is open.\<close>

definition setup_vna :: "'f runtime \<Rightarrow> options \<Rightarrow> (unit, 'f) prog" where
  "setup_vna py settings =
     bind (item settings ''Points'') (\<lambda>p.
     bind (py_int py p) (\<lambda>points.
     bind (item settings ''Power'') (\<lambda>q.
     bind (py_int py q) (\<lambda>power.
     bind (item settings ''Average'') (\<lambda>a.
     bind (py_int py a) (\<lambda>average.
     bind (set_points points) (\<lambda>_.
     bind (set_power power) (\<lambda>_.
     bind (set_avg average) (\<lambda>_.
     measurecycles py)))))))))"

lemma keeps_setup_vna: "keeps e (setup_vna py settings)"
  unfolding setup_vna_def set_points_def set_power_def
  by (intro keeps_intros keeps_vna_cmd keeps_py_int keeps_item keeps_set_avg keeps_measurecycles)

lemma init_vna_sends:
  assumes "init_vna py cfg w = (Return u, w')"
  shows "Tx Vna (''@REM'' @ [LF]) \<in> set (trace w')"
proof -
  have "init_vna py cfg =
     bind (get_section cfg ''VNA'') (\<lambda>settings.
     bind (item settings ''Port'') (\<lambda>port.
     bind (item settings ''Baudrate'') (\<lambda>b.
     bind (py_int py b) (\<lambda>baudrate.
     bind (VNA_init port baudrate) (\<lambda>_. setup_vna py settings)))))"
    (is "_ = ?steps")
    by (simp add: init_vna_def setup_vna_def)
  with assms have "?steps w = (Return u, w')"
    by simp
  then obtain settings port baudrate wa wb where
    a: "VNA_init port baudrate wa = (Return (), wb)" and
    b: "setup_vna py settings wb = (Return u, w')"
    unfolding bind_Return_iff by auto
  from a have "Tx Vna (''@REM'' @ [LF]) \<in> set (trace wb)"
    by (auto simp: VNA_init_def open_serial_def bind_def vna_cmd_def ser_write_def emit_def
        split: option.splits)
  with b keeps_setup_vna[of "Tx Vna (''@REM'' @ [LF])" py settings] show ?thesis
    by (auto simp: keeps_def)
qed

lemma read_plan_error:
  assumes both_or_neither: "(settings ''StepSize'' = None) = (settings ''Steps'' = None)"
    and start: "settings ''Start'' = Some a" "fl_parse py a \<noteq> None"
    and stop: "settings ''Stop'' = Some b" "fl_parse py b \<noteq> None"
    and ref: "settings ''ReferencePoint'' = Some r" "fl_parse py r \<noteq> None"
    and folder: "settings ''ResonanceCurveFolder'' \<noteq> None"
    and bools: "boolean_ok settings ''Infinite''" "boolean_ok settings ''CaptureResonanceCurve''"
      "boolean_ok settings ''Checkmode''"
  shows "read_plan py settings w = (Raise RuntimeError, w)"
proof -
  obtain i where i: "getboolean settings ''Infinite'' v = (Return i, v)" for v :: "'a world"
    using bools(1) by (auto simp: boolean_ok_def getboolean_def ret_def split: option.splits)
  obtain c where c: "getboolean settings ''CaptureResonanceCurve'' v = (Return c, v)"
    for v :: "'a world"
    using bools(2) by (auto simp: boolean_ok_def getboolean_def ret_def split: option.splits)
  obtain m where m: "getboolean settings ''Checkmode'' v = (Return m, v)" for v :: "'a world"
    using bools(3) by (auto simp: boolean_ok_def getboolean_def ret_def split: option.splits)
  obtain x y z f where p: "fl_parse py a = Some x" "fl_parse py b = Some y"
    "fl_parse py r = Some z" "settings ''ResonanceCurveFolder'' = Some f"
    using start(2) stop(2) ref(2) folder by auto
  have s: "read_stepsize py settings x' y' v = (Raise RuntimeError, v)"
    for x' y' and v :: "'a world"
    using both_or_neither by (simp add: read_stepsize_def raise_def)
  show ?thesis
    by (simp add: read_plan_def bind_def item_def orraise_def ret_def py_float_def Let_def
        start(1) stop(1) ref(1) p i c m s)
qed

text \<open>
  C7, as the code has it. When the section \<open>MEASUREMENT\<close> has both or neither of
  \<open>StepSize\<close> and \<open>Steps\<close>, and the settings that \<open>measure\<close> reads before it looks at them
  are well-formed, \<open>measure\<close> raises \<open>RuntimeError\<close> without doing anything to the world:
  it sends no command. But \<open>measure\<close> runs on an object whose constructor has returned,
  and the constructor has by then sent its commands: the world in which the error is
  raised has \<open>@REM\<close> among the bytes written to the analyser.
\<close>

theorem config_error_after_init:
  assumes init: "Stoerkoerpermessung_init py cfg config_file file w = (Return self, w1)"
    and sec: "cfg ''MEASUREMENT'' = Some settings"
    and both_or_neither: "(settings ''StepSize'' = None) = (settings ''Steps'' = None)"
    and start: "settings ''Start'' = Some a" "fl_parse py a \<noteq> None"
    and stop: "settings ''Stop'' = Some b" "fl_parse py b \<noteq> None"
    and ref: "settings ''ReferencePoint'' = Some r" "fl_parse py r \<noteq> None"
    and folder: "settings ''ResonanceCurveFolder'' \<noteq> None"
    and bools: "boolean_ok settings ''Infinite''" "boolean_ok settings ''CaptureResonanceCurve''"
      "boolean_ok settings ''Checkmode''"
  shows "measure_run py self w1 = Some (Raise RuntimeError, w1) \<and>
         main py cfg config_file file w = Some (Raise RuntimeError, w1) \<and>
         Tx Vna (''@REM'' @ [LF]) \<in> set (trace w1)"
proof -
  from init obtain wm where
    v: "init_vna py cfg wm = (Return (), w1)" and self: "config self = cfg"
    unfolding Stoerkoerpermessung_init_def bind_Return_iff by (auto simp: ret_def)
  have run: "measure_run py self w1 = Some (Raise RuntimeError, w1)"
    using read_plan_error[OF both_or_neither start stop ref folder bools, of w1]
    by (simp add: measure_run_def bind_def get_section_def orraise_def ret_def self sec)
  moreover have "main py cfg config_file file w = Some (Raise RuntimeError, w1)"
    by (simp add: main_def init run)
  ultimately show ?thesis
    using init_vna_sends[OF v] by simp
qed


text \<open>What the constructor does to the world \<open>world0\<close> under the configuration \<open>cfg0\<close>.\<close>

definition trace_init :: "rat event list" where
  "trace_init =
     [Tx Vna (''@REM'' @ [LF]), Tx Vna (''SENSE:SWEEP:POINTS 201'' @ [LF]),
      Tx Vna (''SOURCE:POWER 0dBm'' @ [LF]), Tx Vna (''SENSE:AVERAGE:COUNT 3'' @ [LF]),
      Tx Vna (''SENSE:AVERAGE:STATE ON'' @ [LF]), Tx Vna (''SENSE:AVERAGE:CLEAR'' @ [LF])] @
     trace_cycle 8"

lemma init_example:
  "Stoerkoerpermessung_init exact_runtime cfg0 ''m.ini'' ''out.txt''
     (world0 (''3'' @ [LF] @ ''2.0'' @ [LF]) []) =
     (Return app0, (world0 [] [])\<lparr>trace := trace_init\<rparr>)"
  by (simp add: Stoerkoerpermessung_init_def init_motor_def init_vna_def VNA_init_def
      open_serial_def load_motor_config_def read_conf_def set_points_def set_power_def
      set_avg_def app_simps run_simps cfg0_def app0_def exact_runtime_def world0_def
      trace_init_def trace_cycle_def)

text \<open>
  C7 as stated fails: with both \<open>StepSize\<close> and \<open>Steps\<close> in the configuration the script
  ends in \<open>RuntimeError\<close> after ten things done to the analyser, nine commands and a wait.
\<close>

theorem config_error_after_init_counterexample:
  "main exact_runtime cfg0 ''m.ini'' ''out.txt'' (world0 (''3'' @ [LF] @ ''2.0'' @ [LF]) []) =
     Some (Raise RuntimeError, (world0 [] [])\<lparr>trace :=
       [Tx Vna (''@REM'' @ [LF]), Tx Vna (''SENSE:SWEEP:POINTS 201'' @ [LF]),
        Tx Vna (''SOURCE:POWER 0dBm'' @ [LF]), Tx Vna (''SENSE:AVERAGE:COUNT 3'' @ [LF]),
        Tx Vna (''SENSE:AVERAGE:STATE ON'' @ [LF]), Tx Vna (''SENSE:AVERAGE:CLEAR'' @ [LF]),
        Tx Vna (''SENSE:AVERAGE:CLEAR'' @ [LF]), Tx Vna (''SENSE:AVERAGE:COUNT?'' @ [LF]),
        Tx Vna (''SENS:SWEEP:TIME?'' @ [LF]), Sleep 8]\<rparr>)"
proof -
  have "measure_run exact_runtime app0 v = Some (Raise RuntimeError, v)" for v
    by (simp add: measure_run_def read_plan_def read_stepsize_def getboolean_def lower_def
        app_simps run_simps cfg0_def app0_def exact_runtime_def char_of_def)
  with init_example show ?thesis
    by (simp add: main_def trace_init_def trace_cycle_def)
qed

theorem config_error_after_init_witness:
  "measure_run exact_runtime app0 ((world0 [] [])\<lparr>trace := trace_init\<rparr>) =
     Some (Raise RuntimeError, (world0 [] [])\<lparr>trace := trace_init\<rparr>) \<and>
   main exact_runtime cfg0 ''m.ini'' ''out.txt'' (world0 (''3'' @ [LF] @ ''2.0'' @ [LF]) []) =
     Some (Raise RuntimeError, (world0 [] [])\<lparr>trace := trace_init\<rparr>) \<and>
   Tx Vna (''@REM'' @ [LF]) \<in> set (trace ((world0 [] [])\<lparr>trace := trace_init\<rparr>))"
proof -
  have b: "boolean_ok (the (cfg0 ''MEASUREMENT'')) ''Infinite''"
    "boolean_ok (the (cfg0 ''MEASUREMENT'')) ''CaptureResonanceCurve''"
    "boolean_ok (the (cfg0 ''MEASUREMENT'')) ''Checkmode''"
    by (simp_all add: boolean_ok_def cfg0_def lower_def char_of_def)
  show ?thesis
    by (rule config_error_after_init[OF init_example,
          where settings = "the (cfg0 ''MEASUREMENT'')" and a = "''0''" and b = "''10''"
            and r = "''5''", OF _ _ _ _ _ _ _ _ _ b])
      (simp_all add: cfg0_def exact_runtime_def decimal_def run_simps)
qed

end
